theory Spec2Isabelle
  imports Complex_Main "HOL-Library.Sublist" "HOL-Library.Multiset"
begin

section \<open>JavaScript values and built-ins used by the handler\<close>

text \<open>
  The shape of a parsed JSON request body. Numbers are restricted to integers; an object is
  the association list of its own properties, the first binding of a key being its value.
\<close>

datatype jsval =
    JUndefined
  | JNull
  | JBool bool
  | JNum int
  | JStr string
  | JArr "jsval list"
  | JObj "(string \<times> jsval) list"

text \<open>Truthiness, as tested by \<^verbatim>\<open>!x\<close>, \<^verbatim>\<open>x || d\<close> and \<^verbatim>\<open>if (x)\<close>.\<close>

fun truthy :: "jsval \<Rightarrow> bool" where
  "truthy JUndefined = False"
| "truthy JNull = False"
| "truthy (JBool b) = b"
| "truthy (JNum n) = (n \<noteq> 0)"
| "truthy (JStr s) = (s \<noteq> [])"
| "truthy (JArr vs) = True"
| "truthy (JObj kvs) = True"

text \<open>
  Reading one property in a destructuring \<^verbatim>\<open>const { k } = v\<close>: \<open>None\<close> is the TypeError
  thrown for \<^verbatim>\<open>undefined\<close> and \<^verbatim>\<open>null\<close>; every other value yields the property or
  \<^verbatim>\<open>undefined\<close>. Only the keys \<^verbatim>\<open>id\<close> and \<^verbatim>\<open>status\<close> are ever read, which no
  primitive wrapper or array defines.
\<close>

fun get_prop :: "jsval \<Rightarrow> string \<Rightarrow> jsval option" where
  "get_prop JUndefined k = None"
| "get_prop JNull k = None"
| "get_prop (JObj kvs) k = Some (case map_of kvs k of None \<Rightarrow> JUndefined | Some v \<Rightarrow> v)"
| "get_prop v k = Some JUndefined"

text \<open>A query-string parameter read with \<^verbatim>\<open>as string\<close>: absent or a string.\<close>

type_synonym qparam = "string option"

fun truthy_str :: "qparam \<Rightarrow> bool" where
  "truthy_str None = False"
| "truthy_str (Some s) = (s \<noteq> [])"

subsection \<open>parseInt\<close>

text \<open>
  The numbers the list operation computes with are doubles. A double holds every integer
  of magnitude below \<open>2^53\<close> exactly, and on these the arithmetic of the handler (a
  subtraction, a product, a quotient rounded up) is the arithmetic of the integers as long
  as the results stay in that range. \<open>Num n\<close> is such an integer. \<open>Inexact\<close> stands for
  a number of magnitude \<open>2^53\<close> or more, finite or infinite: which double it is, the
  model does not say.
\<close>

datatype jsnum = NaN | Num int | Inexact

definition safe :: "int \<Rightarrow> bool" where
  "safe n = (\<bar>n\<bar> < 2 ^ 53)"

text \<open>The number for a mathematical integer: itself when its magnitude is below \<open>2^53\<close>.\<close>

definition to_number :: "int \<Rightarrow> jsnum" where
  "to_number n = (if safe n then Num n else Inexact)"

text \<open>
  \<^verbatim>\<open>parseInt(s)\<close> with no radix: leading white space is skipped, then an optional sign,
  then an optional \<^verbatim>\<open>0x\<close>/\<^verbatim>\<open>0X\<close> prefix selecting radix 16, then the longest run of
  digits of the radix. No digit gives NaN; otherwise the result is the number for the
  integer that the digits denote.

  Of the white space that parseInt skips, a text of this model can hold tab, line feed,
  vertical tab, form feed, carriage return, space and the no-break space (character
  \<open>0xA0\<close>); the others lie above character 255.
\<close>

definition is_space :: "char \<Rightarrow> bool" where
  "is_space c =
     (c \<in> set [CHR '' '', CHR 0x09, CHR 0x0A, CHR 0x0B, CHR 0x0C, CHR 0x0D, CHR 0xA0])"

definition digit_table :: "(char \<times> int) list" where
  "digit_table =
     [(CHR ''0'', 0), (CHR ''1'', 1), (CHR ''2'', 2), (CHR ''3'', 3), (CHR ''4'', 4),
      (CHR ''5'', 5), (CHR ''6'', 6), (CHR ''7'', 7), (CHR ''8'', 8), (CHR ''9'', 9),
      (CHR ''a'', 10), (CHR ''b'', 11), (CHR ''c'', 12), (CHR ''d'', 13), (CHR ''e'', 14),
      (CHR ''f'', 15),
      (CHR ''A'', 10), (CHR ''B'', 11), (CHR ''C'', 12), (CHR ''D'', 13), (CHR ''E'', 14),
      (CHR ''F'', 15)]"

definition digit_of :: "int \<Rightarrow> char \<Rightarrow> int option" where
  "digit_of radix c =
     (case map_of digit_table c of
        None \<Rightarrow> None
      | Some d \<Rightarrow> if d < radix then Some d else None)"

text \<open>
  The digit loop: \<open>acc\<close> is \<open>None\<close> until the first digit has been read, and the scan stops
  at the first character that is not a digit of the radix.
\<close>

fun parse_digits :: "int \<Rightarrow> int option \<Rightarrow> string \<Rightarrow> int option" where
  "parse_digits radix acc [] = acc"
| "parse_digits radix acc (c # cs) =
     (case digit_of radix c of
        None \<Rightarrow> acc
      | Some d \<Rightarrow> parse_digits radix (Some ((case acc of None \<Rightarrow> 0 | Some a \<Rightarrow> a) * radix + d)) cs)"

fun strip_prefix_0x :: "string \<Rightarrow> int \<times> string" where
  "strip_prefix_0x (c # d # cs) =
     (if c = CHR ''0'' \<and> (d = CHR ''x'' \<or> d = CHR ''X'') then (16, cs) else (10, c # d # cs))"
| "strip_prefix_0x cs = (10, cs)"

fun strip_sign :: "string \<Rightarrow> int \<times> string" where
  "strip_sign (c # cs) =
     (if c = CHR ''-'' then (- 1, cs) else if c = CHR ''+'' then (1, cs) else (1, c # cs))"
| "strip_sign [] = (1, [])"

text \<open>The integer that the text denotes, with its sign; \<open>None\<close> when it has no digit.\<close>

definition mathInt :: "string \<Rightarrow> int option" where
  "mathInt s =
     (let (sign, s1) = strip_sign (dropWhile is_space s);
          (radix, s2) = strip_prefix_0x s1
      in map_option (\<lambda>n. sign * n) (parse_digits radix None s2))"

definition parseInt_str :: "string \<Rightarrow> jsnum" where
  "parseInt_str s = (case mathInt s of None \<Rightarrow> NaN | Some n \<Rightarrow> to_number n)"

text \<open>An absent parameter is \<^verbatim>\<open>undefined\<close>, which parseInt reads as the text "undefined".\<close>

fun parseInt :: "qparam \<Rightarrow> jsnum" where
  "parseInt None = parseInt_str ''undefined''"
| "parseInt (Some s) = parseInt_str s"

text \<open>
  \<^verbatim>\<open>parseInt(x) || d\<close>: NaN and zero are falsy and give the default; every other number
  is truthy.
\<close>

fun or_default :: "jsnum \<Rightarrow> int \<Rightarrow> jsnum" where
  "or_default NaN d = Num d"
| "or_default (Num n) d = (if n = 0 then Num d else Num n)"
| "or_default Inexact d = Inexact"

text \<open>
  \<^verbatim>\<open>Math.ceil(total / limit)\<close> for integers that doubles hold exactly: the quotient of
  two such integers is rounded to no integer that it does not equal, so rounding it up
  gives the exact ceiling.
\<close>

definition ceil_div :: "int \<Rightarrow> int \<Rightarrow> int" where
  "ceil_div n m = \<lceil>real_of_int n / real_of_int m\<rceil>"

text \<open>\<^verbatim>\<open>path.basename\<close>: the last segment of a path, trailing separators ignored.\<close>

definition basename :: "string \<Rightarrow> string" where
  "basename p =
     rev (takeWhile (\<lambda>c. c \<noteq> CHR ''/'') (dropWhile (\<lambda>c. c = CHR ''/'') (rev p)))"

section \<open>Data model\<close>

type_synonym oid = string
type_synonym timestamp = int

record comment =
  comment_id :: string
  content :: string
  comment_createdAt :: timestamp
  author_name :: string
  author_email :: string

record location =
  address :: string
  coordinates :: "(int \<times> int) option"

record reporter =
  reporter_id :: oid
  reporter_name :: string
  reporter_email :: string

record updater =
  updater_email :: string
  updater_name :: string

text \<open>A document of the \<^verbatim>\<open>incidents\<close> collection; \<open>incident_id\<close> is its \<^verbatim>\<open>_id\<close>.\<close>

record incident =
  incident_id :: oid
  title :: string
  location :: location
  type :: string
  severity :: string
  description :: string
  photoUrl :: "string option"
  status :: string
  reportedBy :: reporter
  comments :: "comment list"
  createdAt :: timestamp
  updatedAt :: timestamp
  updatedBy :: "updater option"

text \<open>A document of the \<^verbatim>\<open>users\<close> collection.\<close>

record user =
  user_id :: oid
  user_name :: string
  user_email :: string

record db =
  incidents :: "incident list"
  users :: "user list"

text \<open>\<^verbatim>\<open>session.user\<close> of an authenticated caller; \<open>userType\<close> is the role.\<close>

record session =
  session_email :: string
  session_name :: string
  userType :: jsval

text \<open>
  The multipart form as parsed by \<^verbatim>\<open>form.parse\<close>: the named fields the handler reads,
  every other field the caller sent, and the path of the saved \<^verbatim>\<open>photo\<close> upload.
\<close>

record form_data =
  f_title :: qparam
  f_location :: qparam
  f_type :: qparam
  f_severity :: qparam
  f_description :: qparam
  f_other :: "(string \<times> string) list"
  f_photo :: "string option"

text \<open>
  A request: \<open>form\<close> is \<open>None\<close> when \<^verbatim>\<open>form.parse\<close> reports an error; \<open>body\<close> is
  \<^verbatim>\<open>req.body\<close> as the framework delivers it.
\<close>

record request =
  req_method :: string
  q_page :: qparam
  q_limit :: qparam
  q_search :: qparam
  q_id :: qparam
  body :: jsval
  form :: "form_data option"

text \<open>
  What a request reads from outside: the clock (\<open>now k\<close> is the \<open>k\<close>-th \<^verbatim>\<open>new Date()\<close> of
  the request) and the identifier the driver generates for an inserted document.
\<close>

record env =
  now :: "nat \<Rightarrow> timestamp"
  insertedId :: oid

text \<open>
  The two library entry points whose behaviour depends on the installed driver and on the
  store's pattern engine. \<open>ObjectId v\<close> is \<^verbatim>\<open>new ObjectId(v)\<close>, \<open>None\<close> when the constructor
  throws. \<open>regex_i pat\<close> is the matcher of \<^verbatim>\<open>{ $regex: pat, $options: 'i' }\<close> on a text
  field, \<open>None\<close> when the store rejects the pattern.
\<close>

record driver =
  ObjectId :: "jsval \<Rightarrow> oid option"
  regex_i :: "string \<Rightarrow> (string \<Rightarrow> bool) option"

text \<open>
  The record the list operation returns for one incident. \<^verbatim>\<open>createdAt\<close> stays the
  timestamp; its rendering as ISO text is not modelled.
\<close>

record incident_view =
  view_id :: oid
  view_title :: string
  view_address :: string
  view_type :: string
  view_severity :: string
  view_status :: string
  view_description :: string
  view_photoUrl :: "string option"
  view_reporter_name :: string
  view_reporter_email :: string
  view_createdAt :: timestamp
  view_comments :: "comment list"

text \<open>
  Responses: a status code with its \<^verbatim>\<open>message\<close>; the 400 of the create operation, which
  echoes the four required fields; the 200 of the list operation (incidents, total, page,
  totalPages); the 201 of the create operation. The \<^verbatim>\<open>error\<close> text attached to a 500 is
  left out. \<open>Unmodelled\<close> is no answer of the handler: it marks a list request whose
  page, limit, offset or count leaves the integers that doubles hold exactly, for which
  the model does not say what the handler answers.
\<close>

datatype response =
    Message nat string
  | MissingFields qparam qparam qparam qparam
  | IncidentList "incident_view list" int int int
  | Created incident
  | Unmodelled

section \<open>The document store\<close>

text \<open>
  The collections are lists in the store's natural order. Only the calls the handler makes
  are modelled, with the errors the store raises deterministically for them; a lost
  connection is not modelled.
\<close>

datatype field = F_title | F_location_address | F_type | F_description

fun field_value :: "field \<Rightarrow> incident \<Rightarrow> string" where
  "field_value F_title i = title i"
| "field_value F_location_address i = address (location i)"
| "field_value F_type i = type i"
| "field_value F_description i = description i"

text \<open>
  A filter document: \<open>Q_all\<close> is \<^verbatim>\<open>{}\<close>; \<open>Q_or\<close> is \<^verbatim>\<open>{ $or: [...] }\<close> over clauses
  \<^verbatim>\<open>{ field: { $regex: pat, $options: 'i' } }\<close>.
\<close>

datatype clause = Regex field string

datatype query = Q_all | Q_or "clause list"

fun compile_clause :: "driver \<Rightarrow> clause \<Rightarrow> (incident \<Rightarrow> bool) option" where
  "compile_clause drv (Regex f pat) =
     map_option (\<lambda>m. \<lambda>i. m (field_value f i)) (regex_i drv pat)"

text \<open>The predicate a filter denotes; \<open>None\<close> when the store rejects one of its patterns.\<close>

fun compile_query :: "driver \<Rightarrow> query \<Rightarrow> (incident \<Rightarrow> bool) option" where
  "compile_query drv Q_all = Some (\<lambda>i. True)"
| "compile_query drv (Q_or cs) =
     map_option (\<lambda>ms. \<lambda>i. list_ex (\<lambda>m. m i) ms) (those (map (compile_clause drv) cs))"

text \<open>
  \<^verbatim>\<open>find(q).sort({ createdAt: -1 }).skip(skip).limit(limit).toArray()\<close>. The store
  rejects a negative skip; a negative limit returns that many documents in a single batch
  and a zero limit is no limit. Incidents with the same \<^verbatim>\<open>createdAt\<close> keep their natural
  order.
\<close>

definition sort_createdAt_desc :: "incident list \<Rightarrow> incident list" where
  "sort_createdAt_desc xs = sort_key (\<lambda>i. - createdAt i) xs"

definition find_window :: "(incident \<Rightarrow> bool) \<Rightarrow> int \<Rightarrow> int \<Rightarrow> incident list \<Rightarrow> incident list option" where
  "find_window p skip limit xs =
     (if skip < 0 then None
      else let sorted = sort_createdAt_desc (filter p xs);
               rest = drop (nat skip) sorted
           in Some (if limit = 0 then rest else take (nat \<bar>limit\<bar>) rest))"

definition countDocuments :: "(incident \<Rightarrow> bool) \<Rightarrow> incident list \<Rightarrow> int" where
  "countDocuments p xs = int (length (filter p xs))"

definition findOne_incident :: "oid \<Rightarrow> incident list \<Rightarrow> incident option" where
  "findOne_incident k xs = find (\<lambda>i. incident_id i = k) xs"

definition findOne_user :: "string \<Rightarrow> user list \<Rightarrow> user option" where
  "findOne_user e us = find (\<lambda>u. user_email u = e) us"

text \<open>\<^verbatim>\<open>insertOne\<close>: the \<^verbatim>\<open>_id\<close> index is unique, a duplicate key is an error.\<close>

definition insertOne :: "incident \<Rightarrow> incident list \<Rightarrow> incident list option" where
  "insertOne doc xs =
     (if incident_id doc \<in> set (map incident_id xs) then None else Some (xs @ [doc]))"

text \<open>\<^verbatim>\<open>updateOne({ _id }, { $set })\<close>: the first match is updated; returns matchedCount.\<close>

fun updateOne :: "oid \<Rightarrow> (incident \<Rightarrow> incident) \<Rightarrow> incident list \<Rightarrow> nat \<times> incident list" where
  "updateOne k f [] = (0, [])"
| "updateOne k f (x # xs) =
     (if incident_id x = k then (1, f x # xs)
      else (let (n, ys) = updateOne k f xs in (n, x # ys)))"

fun deleteOne :: "oid \<Rightarrow> incident list \<Rightarrow> incident list" where
  "deleteOne k [] = []"
| "deleteOne k (x # xs) = (if incident_id x = k then xs else x # deleteOne k xs)"

section \<open>The handler of /api/incidents\<close>

text \<open>
  Each branch returns the response and the store after the request. The model starts
  where the session lookup and the database connection have returned.
\<close>

subsection \<open>GET: list, search, paginate\<close>

text \<open>
  The branch is followed as long as page, limit, the offset and the count are integers
  that doubles hold exactly; beyond, the answer is left open (\<open>Unmodelled\<close>).
\<close>

definition build_query :: "qparam \<Rightarrow> query" where
  "build_query search =
     (case search of
        None \<Rightarrow> Q_all
      | Some s \<Rightarrow>
          if truthy_str search
          then Q_or [Regex F_title s, Regex F_location_address s, Regex F_type s,
                     Regex F_description s]
          else Q_all)"

definition normalise :: "incident \<Rightarrow> incident_view" where
  "normalise i =
     \<lparr> view_id = incident_id i,
       view_title = title i,
       view_address = address (location i),
       view_type = type i,
       view_severity = severity i,
       view_status = (if status i = [] then ''pending'' else status i),
       view_description = description i,
       view_photoUrl = (case photoUrl i of None \<Rightarrow> None
                        | Some u \<Rightarrow> if u = [] then None else Some u),
       view_reporter_name = reporter_name (reportedBy i),
       view_reporter_email = reporter_email (reportedBy i),
       view_createdAt = createdAt i,
       view_comments = comments i \<rparr>"

definition handle_GET :: "driver \<Rightarrow> request \<Rightarrow> db \<Rightarrow> response \<times> db" where
  "handle_GET drv req d =
     (case (or_default (parseInt (q_page req)) 1, or_default (parseInt (q_limit req)) 10) of
        (Num page, Num limit) \<Rightarrow>
          (let search = q_search req;
               skip = (page - 1) * limit;
               query = build_query search
           in if \<not> safe skip then (Unmodelled, d)
              else
                (case compile_query drv query of
                   None \<Rightarrow> (Message 500 ''Error fetching incidents'', d)
                 | Some p \<Rightarrow>
                     (case find_window p skip limit (incidents d) of
                        None \<Rightarrow> (Message 500 ''Error fetching incidents'', d)
                      | Some rawIncidents \<Rightarrow>
                          (let n = countDocuments p (incidents d)
                           in if \<not> safe n then (Unmodelled, d)
                              else (IncidentList (map normalise rawIncidents) n page
                                      (ceil_div n limit), d)))))
      | _ \<Rightarrow> (Unmodelled, d))"

subsection \<open>POST: create\<close>

text \<open>
  The text of a form field. For \<^verbatim>\<open>fields.description || ''\<close> an absent field reads as
  the empty text; the four required fields are read only after the check that they are
  present and non-empty.
\<close>

fun field_text :: "qparam \<Rightarrow> string" where
  "field_text None = []"
| "field_text (Some s) = s"

definition handle_POST :: "env \<Rightarrow> session \<Rightarrow> request \<Rightarrow> db \<Rightarrow> response \<times> db" where
  "handle_POST e sess req d =
     (case form req of
        None \<Rightarrow> (Message 500 ''Could not create incident'', d)
      | Some flds \<Rightarrow>
          if \<not> truthy_str (f_title flds) \<or> \<not> truthy_str (f_location flds)
             \<or> \<not> truthy_str (f_type flds) \<or> \<not> truthy_str (f_severity flds)
          then (MissingFields (f_title flds) (f_location flds) (f_type flds)
                  (f_severity flds), d)
          else
            (case findOne_user (session_email sess) (users d) of
               None \<Rightarrow> (Message 404 ''User not found'', d)
             | Some u \<Rightarrow>
                 (let incident =
                        \<lparr> incident_id = insertedId e,
                          title = field_text (f_title flds),
                          location = \<lparr> address = field_text (f_location flds),
                                       coordinates = None \<rparr>,
                          type = field_text (f_type flds),
                          severity = field_text (f_severity flds),
                          description = field_text (f_description flds),
                          photoUrl = map_option (\<lambda>filepath. ''/uploads/'' @ basename filepath)
                                       (f_photo flds),
                          status = ''pending'',
                          reportedBy = \<lparr> reporter_id = user_id u, reporter_name = user_name u,
                                         reporter_email = user_email u \<rparr>,
                          comments = [],
                          createdAt = now e 0,
                          updatedAt = now e 1,
                          updatedBy = None \<rparr>
                  in case insertOne incident (incidents d) of
                       None \<Rightarrow> (Message 500 ''Could not create incident'', d)
                     | Some xs \<Rightarrow> (Created incident, d\<lparr>incidents := xs\<rparr>))))"

subsection \<open>PATCH: update status\<close>

definition validStatuses :: "string list" where
  "validStatuses = [''pending'', ''in_progress'', ''resolved'', ''rejected'']"

text \<open>
  \<^verbatim>\<open>validStatuses.includes(status)\<close> compares without conversion, so it holds only of a
  string; the branch on \<open>JStr\<close> below is that test, and it names the text that is written.
\<close>

definition handle_PATCH :: "driver \<Rightarrow> env \<Rightarrow> session \<Rightarrow> request \<Rightarrow> db \<Rightarrow> response \<times> db" where
  "handle_PATCH drv e sess req d =
     (if userType sess \<noteq> JStr ''official''
      then (Message 403 ''Not authorized to update incident status'', d)
      else
        (case (get_prop (body req) ''id'', get_prop (body req) ''status'') of
           (Some idv, Some st) \<Rightarrow>
             if \<not> truthy idv \<or> \<not> truthy st
             then (Message 400 ''Incident ID and status are required'', d)
             else
               (case st of
                  JStr s \<Rightarrow>
                    if s \<notin> set validStatuses
                    then (Message 400 ''Invalid status value'', d)
                    else
                      (case ObjectId drv idv of
                         None \<Rightarrow> (Message 500 ''Error updating incident status'', d)
                       | Some k \<Rightarrow>
                           (let (matchedCount, xs) =
                                  updateOne k
                                    (\<lambda>i. i\<lparr> status := s,
                                             updatedAt := now e 0,
                                             updatedBy := Some \<lparr> updater_email = session_email sess,
                                                                updater_name = session_name sess \<rparr> \<rparr>)
                                    (incidents d)
                            in if matchedCount = 0
                               then (Message 404 ''Incident not found'', d)
                               else (Message 200 ''Incident status updated successfully'',
                                     d\<lparr>incidents := xs\<rparr>)))
                | _ \<Rightarrow> (Message 400 ''Invalid status value'', d))
         | _ \<Rightarrow> (Message 500 ''Error updating incident status'', d)))"

subsection \<open>DELETE: remove\<close>

definition handle_DELETE :: "driver \<Rightarrow> session \<Rightarrow> request \<Rightarrow> db \<Rightarrow> response \<times> db" where
  "handle_DELETE drv sess req d =
     (if \<not> truthy_str (q_id req)
      then (Message 400 ''Incident ID is required'', d)
      else
        (case ObjectId drv (JStr (field_text (q_id req))) of
           None \<Rightarrow> (Message 500 ''Error deleting incident'', d)
         | Some k \<Rightarrow>
             (case findOne_incident k (incidents d) of
                None \<Rightarrow> (Message 404 ''Incident not found'', d)
              | Some incident \<Rightarrow>
                  if reporter_email (reportedBy incident) \<noteq> session_email sess
                     \<and> userType sess \<noteq> JStr ''official''
                  then (Message 403 ''Not authorized to delete this incident'', d)
                  else (Message 200 ''Incident deleted successfully'',
                        d\<lparr>incidents := deleteOne k (incidents d)\<rparr>))))"

subsection \<open>Dispatch\<close>

definition handler :: "driver \<Rightarrow> env \<Rightarrow> session option \<Rightarrow> request \<Rightarrow> db \<Rightarrow> response \<times> db" where
  "handler drv e sn req d =
     (case sn of
        None \<Rightarrow> (Message 401 ''Not authenticated'', d)
      | Some sess \<Rightarrow>
          if req_method req = ''GET'' then handle_GET drv req d
          else if req_method req = ''POST'' then handle_POST e sess req d
          else if req_method req = ''PATCH'' then handle_PATCH drv e sess req d
          else if req_method req = ''DELETE'' then handle_DELETE drv sess req d
          else (Message 405 ''Method not allowed'', d))"

subsection \<open>The route as deployed\<close>

text \<open>
  The module exports \<^verbatim>\<open>config = { api: { bodyParser: false } }\<close> (lines 10-14), which
  holds for every method of the route. With the body parser on, the framework hands the
  handler the parsed payload as \<^verbatim>\<open>req.body\<close>; with it off, the payload is left unread
  and \<^verbatim>\<open>req.body\<close> is \<^verbatim>\<open>undefined\<close>.
\<close>

record api_config =
  bodyParser :: bool

definition config :: api_config where
  "config = \<lparr> bodyParser = False \<rparr>"

definition delivered_body :: "api_config \<Rightarrow> jsval \<Rightarrow> jsval" where
  "delivered_body c payload = (if bodyParser c then payload else JUndefined)"

text \<open>
  The route: \<open>body req\<close> is the JSON payload the client sent, and the handler runs on the
  request with the body that the framework delivers under \<open>config\<close>.
\<close>

definition api_route :: "driver \<Rightarrow> env \<Rightarrow> session option \<Rightarrow> request \<Rightarrow> db \<Rightarrow> response \<times> db" where
  "api_route drv e sn req d =
     handler drv e sn (req\<lparr> body := delivered_body config (body req) \<rparr>) d"

section \<open>A pattern engine for the store\<close>

text \<open>
  The store matches \<^verbatim>\<open>$regex\<close> with a Perl-compatible engine. The fragment modelled here:
  an ordinary character matches itself, \<^verbatim>\<open>.\<close> matches any character but a line feed, a
  backslash before a character that is neither a letter nor a digit makes it literal,
  \<^verbatim>\<open>*\<close> after one of these repeats it, \<^verbatim>\<open>|\<close> separates alternatives. Option \<^verbatim>\<open>i\<close>
  compares letters without case; a pattern matches a text when it matches somewhere in
  it. Every other pattern gives \<open>None\<close>, whether the engine rejects it or only this
  fragment leaves it out.
\<close>

definition to_lower :: "char \<Rightarrow> char" where
  "to_lower c =
     (case map_of (zip ''ABCDEFGHIJKLMNOPQRSTUVWXYZ'' ''abcdefghijklmnopqrstuvwxyz'') c of
        None \<Rightarrow> c
      | Some l \<Rightarrow> l)"

definition backslash :: char where
  "backslash = CHR 0x5C"

definition metachars :: "char list" where
  "metachars = backslash # ''^$.[]|()?*+{}''"

definition is_alnum :: "char \<Rightarrow> bool" where
  "is_alnum c =
     (c \<in> set ''0123456789ABCDEFGHIJKLMNOPQRSTUVWXYZabcdefghijklmnopqrstuvwxyz'')"

datatype atom = Lit char | Dot

datatype piece = One atom | Star atom

fun add_piece :: "piece \<Rightarrow> piece list list \<Rightarrow> piece list list" where
  "add_piece p [] = [[p]]"
| "add_piece p (b # bs) = (p # b) # bs"

text \<open>One atom, when the text starts with one, and the text after it.\<close>

fun parse_atom :: "string \<Rightarrow> (atom \<times> string) option" where
  "parse_atom [] = None"
| "parse_atom (c # cs) =
     (if c = backslash then
        (case cs of
           [] \<Rightarrow> None
         | x # rest \<Rightarrow> if is_alnum x then None else Some (Lit x, rest))
      else if c = CHR ''.'' then Some (Dot, cs)
      else if c \<in> set metachars then None
      else Some (Lit c, cs))"

text \<open>The alternatives of a pattern, each a sequence of pieces.\<close>

function parse_pattern :: "string \<Rightarrow> piece list list option" where
  "parse_pattern [] = Some [[]]"
| "parse_pattern (c # cs) =
     (if c = CHR ''|'' then map_option (\<lambda>bs. [] # bs) (parse_pattern cs)
      else
        (case parse_atom (c # cs) of
           None \<Rightarrow> None
         | Some (a, rest) \<Rightarrow>
             (case rest of
                [] \<Rightarrow> Some [[One a]]
              | q # rest' \<Rightarrow>
                  if q = CHR ''*'' then map_option (add_piece (Star a)) (parse_pattern rest')
                  else map_option (add_piece (One a)) (parse_pattern rest))))"
  by pat_completeness auto

termination
  by (relation "measure length") (auto split: if_splits list.splits)

fun atom_matches :: "atom \<Rightarrow> char \<Rightarrow> bool" where
  "atom_matches (Lit c) x = (to_lower c = to_lower x)"
| "atom_matches Dot x = (x \<noteq> CHR 0x0A)"

text \<open>Whether the pieces match a prefix of the text.\<close>

fun match_here :: "piece list \<Rightarrow> string \<Rightarrow> bool" where
  "match_here [] s = True"
| "match_here (One a # ps) [] = False"
| "match_here (One a # ps) (x # xs) = (atom_matches a x \<and> match_here ps xs)"
| "match_here (Star a # ps) [] = match_here ps []"
| "match_here (Star a # ps) (x # xs) =
     (match_here ps (x # xs) \<or> (atom_matches a x \<and> match_here (Star a # ps) xs))"

definition match_anywhere :: "piece list list \<Rightarrow> string \<Rightarrow> bool" where
  "match_anywhere bs s = list_ex (\<lambda>b. list_ex (match_here b) (suffixes s)) bs"

definition pcre_subset :: "string \<Rightarrow> (string \<Rightarrow> bool) option" where
  "pcre_subset pat = map_option match_anywhere (parse_pattern pat)"

text \<open>
  An identifier constructor that accepts exactly the texts of 24 hexadecimal digits, read
  without case.
\<close>

definition hex_ObjectId :: "jsval \<Rightarrow> oid option" where
  "hex_ObjectId v =
     (case v of
        JStr s \<Rightarrow>
          if length s = 24 \<and> list_all (\<lambda>c. digit_of 16 c \<noteq> None) s
          then Some (map to_lower s) else None
      | _ \<Rightarrow> None)"

definition sample_driver :: driver where
  "sample_driver = \<lparr> ObjectId = hex_ObjectId, regex_i = pcre_subset \<rparr>"

section \<open>The dashboard's filter\<close>

text \<open>
  The dashboard's own filter over the records it has loaded
  (\<^verbatim>\<open>filteredIncidents\<close>): the search text is compared literally, in lower case, with
  title, address and type.
\<close>

definition filteredIncidents :: "string \<Rightarrow> incident_view list \<Rightarrow> incident_view list" where
  "filteredIncidents searchQuery xs =
     (let searchLower = map to_lower searchQuery
      in filter (\<lambda>i. sublist searchLower (map to_lower (view_title i))
                    \<or> sublist searchLower (map to_lower (view_address i))
                    \<or> sublist searchLower (map to_lower (view_type i))) xs)"

section \<open>The properties as the specification words them\<close>

text \<open>A term occurs in a text as a substring, letters compared without case.\<close>

definition ci_substring :: "string \<Rightarrow> string \<Rightarrow> bool" where
  "ci_substring t s = sublist (map to_lower t) (map to_lower s)"

text \<open>A term with no pattern metacharacter.\<close>

definition plain :: "string \<Rightarrow> bool" where
  "plain t = list_all (\<lambda>c. c \<notin> set metachars) t"

text \<open>
  A term occurs, without regard to case, in the title, the description, the address or the
  type of an incident.
\<close>

definition matches_literally :: "string \<Rightarrow> incident \<Rightarrow> bool" where
  "matches_literally t i =
     (ci_substring t (title i) \<or> ci_substring t (description i)
      \<or> ci_substring t (address (location i)) \<or> ci_substring t (type i))"

text \<open>The four values of the status field.\<close>

definition valid_status :: "string \<Rightarrow> bool" where
  "valid_status s =
     (s = ''pending'' \<or> s = ''in_progress'' \<or> s = ''resolved'' \<or> s = ''rejected'')"

section \<open>Example data\<close>

definition alice :: user where
  "alice = \<lparr> user_id = ''a00000000000000000000001'', user_name = ''Alice'',
             user_email = ''alice@example.org'' \<rparr>"

definition bob :: user where
  "bob = \<lparr> user_id = ''b00000000000000000000002'', user_name = ''Bob'',
           user_email = ''bob@example.org'' \<rparr>"

definition alice_session :: session where
  "alice_session = \<lparr> session_email = ''alice@example.org'', session_name = ''Alice'',
                     userType = JStr ''user'' \<rparr>"

definition bob_session :: session where
  "bob_session = \<lparr> session_email = ''bob@example.org'', session_name = ''Bob'',
                   userType = JStr ''user'' \<rparr>"

definition carol_session :: session where
  "carol_session = \<lparr> session_email = ''carol@example.org'', session_name = ''Carol'',
                     userType = JStr ''official'' \<rparr>"

definition dave_session :: session where
  "dave_session = \<lparr> session_email = ''dave@example.org'', session_name = ''Dave'',
                    userType = JStr ''admin'' \<rparr>"

definition incident_1 :: incident where
  "incident_1 =
     \<lparr> incident_id = ''111111111111111111111111'',
       title = ''Bus collision'',
       location = \<lparr> address = ''5th Ave'', coordinates = None \<rparr>,
       type = ''collision'',
       severity = ''high'',
       description = [],
       photoUrl = None,
       status = ''pending'',
       reportedBy = \<lparr> reporter_id = ''a00000000000000000000001'', reporter_name = ''Alice'',
                      reporter_email = ''alice@example.org'' \<rparr>,
       comments = [],
       createdAt = 100,
       updatedAt = 100,
       updatedBy = None \<rparr>"

definition incident_2 :: incident where
  "incident_2 =
     \<lparr> incident_id = ''222222222222222222222222'',
       title = ''Signal failure'',
       location = \<lparr> address = ''Main St'', coordinates = None \<rparr>,
       type = ''signal'',
       severity = ''low'',
       description = ''Red light stuck'',
       photoUrl = None,
       status = ''pending'',
       reportedBy = \<lparr> reporter_id = ''b00000000000000000000002'', reporter_name = ''Bob'',
                      reporter_email = ''bob@example.org'' \<rparr>,
       comments = [],
       createdAt = 200,
       updatedAt = 200,
       updatedBy = None \<rparr>"

definition sample_db :: db where
  "sample_db = \<lparr> incidents = [incident_1, incident_2], users = [alice, bob] \<rparr>"

definition sample_env :: env where
  "sample_env = \<lparr> now = (\<lambda>k. 1000 + int k), insertedId = ''333333333333333333333333'' \<rparr>"

definition request_of :: "string \<Rightarrow> request" where
  "request_of m =
     \<lparr> req_method = m, q_page = None, q_limit = None, q_search = None, q_id = None,
       body = JUndefined, form = None \<rparr>"

definition bus_form :: form_data where
  "bus_form =
     \<lparr> f_title = Some ''Bus collision'', f_location = Some ''5th Ave'',
       f_type = Some ''collision'', f_severity = Some ''high'', f_description = None,
       f_other = [(''reportedBy'', ''mallory@example.org'')], f_photo = None \<rparr>"

definition patch_request :: "jsval \<Rightarrow> jsval \<Rightarrow> request" where
  "patch_request idv st =
     (request_of ''PATCH'')\<lparr> body := JObj [(''id'', idv), (''status'', st)] \<rparr>"

definition post_request :: "form_data \<Rightarrow> request" where
  "post_request f = (request_of ''POST'')\<lparr> form := Some f \<rparr>"

definition delete_request :: "string \<Rightarrow> request" where
  "delete_request s = (request_of ''DELETE'')\<lparr> q_id := Some s \<rparr>"

definition created_incident :: incident where
  "created_incident =
     \<lparr> incident_id = ''333333333333333333333333'',
       title = ''Bus collision'',
       location = \<lparr> address = ''5th Ave'', coordinates = None \<rparr>,
       type = ''collision'',
       severity = ''high'',
       description = [],
       photoUrl = None,
       status = ''pending'',
       reportedBy = \<lparr> reporter_id = ''a00000000000000000000001'', reporter_name = ''Alice'',
                      reporter_email = ''alice@example.org'' \<rparr>,
       comments = [],
       createdAt = 1000,
       updatedAt = 1001,
       updatedBy = None \<rparr>"

definition get_request :: "qparam \<Rightarrow> qparam \<Rightarrow> qparam \<Rightarrow> request" where
  "get_request pg lm srch = (request_of ''GET'')\<lparr> q_page := pg, q_limit := lm, q_search := srch \<rparr>"

definition updated_incident_1 :: incident where
  "updated_incident_1 =
     incident_1\<lparr> status := ''in_progress'', updatedAt := 1000,
                  updatedBy := Some \<lparr> updater_email = ''carol@example.org'',
                                     updater_name = ''Carol'' \<rparr> \<rparr>"

section \<open>Authorization of the status update\<close>

lemmas sample_defs = sample_driver_def sample_env_def sample_db_def alice_def bob_def
  alice_session_def bob_session_def carol_session_def dave_session_def incident_1_def
  incident_2_def request_of_def bus_form_def patch_request_def post_request_def
  delete_request_def get_request_def

lemmas handler_defs = handler_def handle_GET_def handle_POST_def handle_PATCH_def
  handle_DELETE_def

text \<open>
  C1. A status update by an authenticated caller whose role is not exactly \<^verbatim>\<open>official\<close>
  is answered 403 and the store is returned as it was, whoever owns the incident and
  whatever the request carries; and a 403 is given to no caller whose role is
  \<^verbatim>\<open>official\<close>, so exactly those callers pass the check.
\<close>

theorem update_status_forbidden_unless_official:
  assumes "req_method req = ''PATCH''"
  shows "(userType sess \<noteq> JStr ''official'' \<longrightarrow>
            handler drv e (Some sess) req d
              = (Message 403 ''Not authorized to update incident status'', d))
       \<and> (fst (handler drv e (Some sess) req d)
              = Message 403 ''Not authorized to update incident status''
            \<longrightarrow> userType sess \<noteq> JStr ''official'')"
  using assms
  by (auto simp: handler_def handle_PATCH_def Let_def
           split: option.splits jsval.splits prod.splits if_splits)

text \<open>
  The owner of an incident (role \<^verbatim>\<open>user\<close>) and an \<^verbatim>\<open>admin\<close> both get the 403 on a
  well-formed update of that incident.
\<close>

theorem update_status_forbidden_unless_official_witness:
  "req_method (patch_request (JStr ''111111111111111111111111'') (JStr ''resolved'')) = ''PATCH''
   \<and> userType alice_session \<noteq> JStr ''official''
   \<and> reporter_email (reportedBy incident_1) = session_email alice_session
   \<and> handler sample_driver sample_env (Some alice_session)
        (patch_request (JStr ''111111111111111111111111'') (JStr ''resolved'')) sample_db
       = (Message 403 ''Not authorized to update incident status'', sample_db)
   \<and> userType dave_session = JStr ''admin''
   \<and> handler sample_driver sample_env (Some dave_session)
        (patch_request (JStr ''111111111111111111111111'') (JStr ''resolved'')) sample_db
       = (Message 403 ''Not authorized to update incident status'', sample_db)"
  using update_status_forbidden_unless_official
          [of "patch_request (JStr ''111111111111111111111111'') (JStr ''resolved'')"
              alice_session sample_driver sample_env sample_db]
        update_status_forbidden_unless_official
          [of "patch_request (JStr ''111111111111111111111111'') (JStr ''resolved'')"
              dave_session sample_driver sample_env sample_db]
  by (simp add: sample_defs)

text \<open>
  C10. In the status update the role check comes before the validation of the input: a
  caller whose role is not \<^verbatim>\<open>official\<close> gets the 403 for every request body, also one
  that lacks the identifier or the status or carries an invalid status; and a 400 is
  answered only to callers whose role is \<^verbatim>\<open>official\<close>.
\<close>

theorem authorization_precedes_validation:
  assumes "req_method req = ''PATCH''"
  shows "(userType sess \<noteq> JStr ''official'' \<longrightarrow>
            (\<forall>b. handler drv e (Some sess) (req\<lparr>body := b\<rparr>) d
                   = (Message 403 ''Not authorized to update incident status'', d)))
       \<and> (\<forall>m. fst (handler drv e (Some sess) req d) = Message 400 m
              \<longrightarrow> userType sess = JStr ''official'')"
  using assms
  by (auto simp: handler_def handle_PATCH_def Let_def
           split: option.splits jsval.splits prod.splits if_splits)

text \<open>
  A caller with role \<^verbatim>\<open>user\<close> gets the 403 with an empty body and with an invalid status;
  an official gets each of the two 400 answers.
\<close>

theorem authorization_precedes_validation_witness:
  "req_method (request_of ''PATCH'') = ''PATCH''
   \<and> userType bob_session \<noteq> JStr ''official''
   \<and> handler sample_driver sample_env (Some bob_session)
        ((request_of ''PATCH'')\<lparr>body := JObj []\<rparr>) sample_db
       = (Message 403 ''Not authorized to update incident status'', sample_db)
   \<and> handler sample_driver sample_env (Some bob_session)
        ((request_of ''PATCH'')\<lparr>body := JObj [(''id'', JStr ''111111111111111111111111''),
                                              (''status'', JStr ''archived'')]\<rparr>) sample_db
       = (Message 403 ''Not authorized to update incident status'', sample_db)
   \<and> fst (handler sample_driver sample_env (Some carol_session)
        (patch_request (JStr ''111111111111111111111111'') (JStr ''archived'')) sample_db)
       = Message 400 ''Invalid status value''
   \<and> fst (handler sample_driver sample_env (Some carol_session)
        (patch_request JUndefined (JStr ''resolved'')) sample_db)
       = Message 400 ''Incident ID and status are required''
   \<and> userType carol_session = JStr ''official''"
proof -
  have m: "req_method (request_of ''PATCH'') = ''PATCH''"
    by (simp add: request_of_def)
  have n: "userType bob_session \<noteq> JStr ''official''"
    by (simp add: bob_session_def)
  have c: "fst (handler sample_driver sample_env (Some carol_session)
        (patch_request (JStr ''111111111111111111111111'') (JStr ''archived'')) sample_db)
       = Message 400 ''Invalid status value''"
    by (simp add: sample_defs handler_def handle_PATCH_def validStatuses_def)
  have c2: "fst (handler sample_driver sample_env (Some carol_session)
        (patch_request JUndefined (JStr ''resolved'')) sample_db)
       = Message 400 ''Incident ID and status are required''"
    by (simp add: sample_defs handler_def handle_PATCH_def validStatuses_def)
  have m2: "req_method (patch_request (JStr ''111111111111111111111111'') (JStr ''archived''))
              = ''PATCH''"
    by (simp add: sample_defs)
  from authorization_precedes_validation
         [OF m, of bob_session sample_driver sample_env sample_db] n
  have b: "\<forall>b. handler sample_driver sample_env (Some bob_session)
                 ((request_of ''PATCH'')\<lparr>body := b\<rparr>) sample_db
               = (Message 403 ''Not authorized to update incident status'', sample_db)"
    by blast
  from authorization_precedes_validation
         [OF m2, of carol_session sample_driver sample_env sample_db] c
  have o: "userType carol_session = JStr ''official''"
    by blast
  show ?thesis
    using m n b c c2 o by simp
qed

section \<open>Facts about the store operations\<close>

lemma valid_status_iff: "valid_status s \<longleftrightarrow> s \<in> set validStatuses"
  by (auto simp: valid_status_def validStatuses_def)

lemma updateOne_cases:
  "updateOne k f xs = (n, ys) \<Longrightarrow>
     (n = 0 \<and> ys = xs \<and> (\<forall>x\<in>set xs. incident_id x \<noteq> k))
   \<or> (n = 1 \<and> (\<exists>pre i post. xs = pre @ i # post \<and> ys = pre @ f i # post
                  \<and> incident_id i = k \<and> (\<forall>x\<in>set pre. incident_id x \<noteq> k)))"
proof (induction xs arbitrary: n ys)
  case Nil
  then show ?case by simp
next
  case (Cons x xs)
  show ?case
  proof (cases "incident_id x = k")
    case True
    with Cons.prems have "n = 1" "ys = f x # xs" by auto
    then have "x # xs = [] @ x # xs \<and> ys = [] @ f x # xs \<and> incident_id x = k
               \<and> (\<forall>y\<in>set []. incident_id y \<noteq> k)"
      using True by simp
    then show ?thesis using \<open>n = 1\<close> by blast
  next
    case False
    obtain n' ys' where r: "updateOne k f xs = (n', ys')" by (cases "updateOne k f xs")
    with Cons.prems False have eq: "n = n'" "ys = x # ys'" by auto
    from Cons.IH [OF r] show ?thesis
    proof
      assume "n' = 0 \<and> ys' = xs \<and> (\<forall>x\<in>set xs. incident_id x \<noteq> k)"
      then show ?thesis using eq False by auto
    next
      assume "n' = 1 \<and> (\<exists>pre i post. xs = pre @ i # post \<and> ys' = pre @ f i # post
                  \<and> incident_id i = k \<and> (\<forall>x\<in>set pre. incident_id x \<noteq> k))"
      then obtain pre i post where p: "n' = 1" "xs = pre @ i # post" "ys' = pre @ f i # post"
        "incident_id i = k" "\<forall>x\<in>set pre. incident_id x \<noteq> k" by blast
      then have "x # xs = (x # pre) @ i # post \<and> ys = (x # pre) @ f i # post
          \<and> incident_id i = k \<and> (\<forall>y\<in>set (x # pre). incident_id y \<noteq> k)"
        using eq False by simp
      then show ?thesis using p(1) eq(1) by blast
    qed
  qed
qed

lemma deleteOne_found:
  "find (\<lambda>i. incident_id i = k) xs = Some i \<Longrightarrow>
     \<exists>pre post. xs = pre @ i # post \<and> deleteOne k xs = pre @ post
       \<and> incident_id i = k \<and> (\<forall>x\<in>set pre. incident_id x \<noteq> k)"
proof (induction xs)
  case Nil
  then show ?case by simp
next
  case (Cons x xs)
  show ?case
  proof (cases "incident_id x = k")
    case True
    with Cons.prems have "x = i" by simp
    then have "x # xs = [] @ i # xs \<and> deleteOne k (x # xs) = [] @ xs \<and> incident_id i = k
        \<and> (\<forall>y\<in>set []. incident_id y \<noteq> k)"
      using True by simp
    then show ?thesis by blast
  next
    case False
    with Cons.prems have "find (\<lambda>i. incident_id i = k) xs = Some i" by simp
    from Cons.IH [OF this] obtain pre post where
      p: "xs = pre @ i # post" "deleteOne k xs = pre @ post" "incident_id i = k"
         "\<forall>x\<in>set pre. incident_id x \<noteq> k" by blast
    then have "x # xs = (x # pre) @ i # post \<and> deleteOne k (x # xs) = (x # pre) @ post
        \<and> incident_id i = k \<and> (\<forall>y\<in>set (x # pre). incident_id y \<noteq> k)"
      using False by simp
    then show ?thesis by blast
  qed
qed

lemma deleteOne_subset: "set (deleteOne k xs) \<subseteq> set xs"
  by (induction xs) auto

lemma handler_store_status:
  assumes "\<forall>i\<in>set (incidents d). valid_status (status i)"
  shows "\<forall>i\<in>set (incidents (snd (handler drv e sn req d))). valid_status (status i)"
proof (cases sn)
  case None
  then show ?thesis using assms by (simp add: handler_def)
next
  case (Some sess)
  have g: "\<forall>i\<in>set (incidents (snd (handle_GET drv req d))). valid_status (status i)"
    using assms by (auto simp: handle_GET_def Let_def split: option.splits jsnum.splits)
  have p: "\<forall>i\<in>set (incidents (snd (handle_POST e sess req d))). valid_status (status i)"
    using assms
    by (auto simp: handle_POST_def Let_def insertOne_def valid_status_def split: option.splits if_splits)
  have d: "\<forall>i\<in>set (incidents (snd (handle_DELETE drv sess req d))). valid_status (status i)"
    using assms deleteOne_subset [of _ "incidents d"]
    by (auto simp: handle_DELETE_def Let_def split: option.splits if_splits)
  have u: "\<forall>i\<in>set (incidents (snd (handle_PATCH drv e sess req d))). valid_status (status i)"
  proof -
    { fix s k n ys
      assume v: "s \<in> set validStatuses"
      assume r: "updateOne k (\<lambda>i. i\<lparr> status := s, updatedAt := now e 0,
                     updatedBy := Some \<lparr> updater_email = session_email sess,
                                        updater_name = session_name sess \<rparr> \<rparr>) (incidents d) = (n, ys)"
      have "\<forall>i\<in>set ys. valid_status (status i)"
        using updateOne_cases [OF r] assms v by (auto simp: valid_status_iff)
    }
    then show ?thesis
      using assms
      by (auto simp: handle_PATCH_def Let_def split: option.splits jsval.splits prod.splits if_splits)
  qed
  show ?thesis using Some g p d u assms by (simp add: handler_def)
qed

section \<open>The status field\<close>

lemma get_prop_None: "get_prop v k = None \<longleftrightarrow> v = JUndefined \<or> v = JNull"
  by (cases v) auto

text \<open>
  What the handler does about the status field when it is given a parsed body: a
  successful create appends an incident whose status is \<^verbatim>\<open>pending\<close>; a status update
  whose body carries a target status outside the four values leaves the store as it was
  for every caller, and is answered 400 when the caller's role is \<^verbatim>\<open>official\<close> and 403
  when it is not; and every request, whatever its body, keeps a store whose statuses are
  all among the four values in that state.
\<close>

lemma status_facts_with_parsed_body:
  "(\<forall>i d'. handler drv e sn req d = (Created i, d') \<longrightarrow>
       status i = ''pending'' \<and> incidents d' = incidents d @ [i])
   \<and> (req_method req = ''PATCH'' \<and> get_prop (body req) ''status'' = Some st
        \<and> (\<forall>s. st = JStr s \<longrightarrow> \<not> valid_status s) \<longrightarrow>
        snd (handler drv e sn req d) = d
        \<and> (\<forall>sess. sn = Some sess \<and> userType sess = JStr ''official'' \<longrightarrow>
              fst (handler drv e sn req d) = Message 400 ''Incident ID and status are required''
              \<or> fst (handler drv e sn req d) = Message 400 ''Invalid status value'')
        \<and> (\<forall>sess. sn = Some sess \<and> userType sess \<noteq> JStr ''official'' \<longrightarrow>
              fst (handler drv e sn req d)
                = Message 403 ''Not authorized to update incident status''))
   \<and> ((\<forall>i\<in>set (incidents d). valid_status (status i)) \<longrightarrow>
        (\<forall>i\<in>set (incidents (snd (handler drv e sn req d))). valid_status (status i)))"
proof (intro conjI)
  show "\<forall>i d'. handler drv e sn req d = (Created i, d') \<longrightarrow>
       status i = ''pending'' \<and> incidents d' = incidents d @ [i]"
  proof (intro allI impI)
    fix i d'
    assume h: "handler drv e sn req d = (Created i, d')"
    then obtain sess where sn: "sn = Some sess"
      by (cases sn) (auto simp: handler_def)
    have g: "fst (handle_GET drv req d) \<noteq> Created i"
      by (simp add: handle_GET_def Let_def split: option.splits jsnum.splits)
    have p: "fst (handle_PATCH drv e sess req d) \<noteq> Created i"
      by (simp add: handle_PATCH_def Let_def split: option.splits jsval.splits prod.splits)
    have dl: "fst (handle_DELETE drv sess req d) \<noteq> Created i"
      by (simp add: handle_DELETE_def Let_def split: option.splits)
    from h sn g p dl have c: "handle_POST e sess req d = (Created i, d')"
      by (auto simp: handler_def split: if_splits)
    then show "status i = ''pending'' \<and> incidents d' = incidents d @ [i]"
      by (auto simp: handle_POST_def Let_def insertOne_def split: option.splits if_splits)
  qed
  show "req_method req = ''PATCH'' \<and> get_prop (body req) ''status'' = Some st
        \<and> (\<forall>s. st = JStr s \<longrightarrow> \<not> valid_status s) \<longrightarrow>
        snd (handler drv e sn req d) = d
        \<and> (\<forall>sess. sn = Some sess \<and> userType sess = JStr ''official'' \<longrightarrow>
              fst (handler drv e sn req d) = Message 400 ''Incident ID and status are required''
              \<or> fst (handler drv e sn req d) = Message 400 ''Invalid status value'')
        \<and> (\<forall>sess. sn = Some sess \<and> userType sess \<noteq> JStr ''official'' \<longrightarrow>
              fst (handler drv e sn req d)
                = Message 403 ''Not authorized to update incident status'')"
    by (auto simp: handler_def handle_PATCH_def valid_status_iff get_prop_None
             split: option.splits jsval.splits)
  show "(\<forall>i\<in>set (incidents d). valid_status (status i)) \<longrightarrow>
        (\<forall>i\<in>set (incidents (snd (handler drv e sn req d))). valid_status (status i))"
    using handler_store_status by blast
qed

lemma post_example:
  "handler sample_driver sample_env (Some alice_session) (post_request bus_form) sample_db
     = (Created created_incident,
        sample_db\<lparr>incidents := incidents sample_db @ [created_incident]\<rparr>)"
  by (simp add: sample_defs created_incident_def handler_def handle_POST_def findOne_user_def
        insertOne_def Let_def basename_def)

text \<open>
  A create by Alice, an update to \<^verbatim>\<open>archived\<close> by the official Carol, and a valid update
  on the example store.
\<close>

lemma status_facts_example:
  "handler sample_driver sample_env (Some alice_session) (post_request bus_form) sample_db
     = (Created created_incident,
        sample_db\<lparr>incidents := incidents sample_db @ [created_incident]\<rparr>)
   \<and> status created_incident = ''pending''
   \<and> req_method (patch_request (JStr ''111111111111111111111111'') (JStr ''archived'')) = ''PATCH''
   \<and> get_prop (body (patch_request (JStr ''111111111111111111111111'') (JStr ''archived'')))
         ''status'' = Some (JStr ''archived'')
   \<and> \<not> valid_status ''archived''
   \<and> userType carol_session = JStr ''official''
   \<and> handler sample_driver sample_env (Some carol_session)
        (patch_request (JStr ''111111111111111111111111'') (JStr ''archived'')) sample_db
       = (Message 400 ''Invalid status value'', sample_db)
   \<and> list_all (\<lambda>i. valid_status (status i)) (incidents sample_db)
   \<and> list_all (\<lambda>i. valid_status (status i))
         (incidents (snd (handler sample_driver sample_env (Some carol_session)
            (patch_request (JStr ''111111111111111111111111'') (JStr ''resolved'')) sample_db)))"
proof -
  let ?bad = "patch_request (JStr ''111111111111111111111111'') (JStr ''archived'')"
  let ?good = "patch_request (JStr ''111111111111111111111111'') (JStr ''resolved'')"
  note h = post_example
  from status_facts_with_parsed_body [of sample_driver sample_env "Some alice_session" "post_request bus_form" sample_db] h
  have a: "status created_incident = ''pending''"
    by blast
  have p: "req_method ?bad = ''PATCH''"
          "get_prop (body ?bad) ''status'' = Some (JStr ''archived'')"
          "\<not> valid_status ''archived''" "userType carol_session = JStr ''official''"
    by (simp_all add: sample_defs valid_status_def)
  from status_facts_with_parsed_body [of sample_driver sample_env "Some carol_session" ?bad sample_db "JStr ''archived''"] p
  have b: "snd (handler sample_driver sample_env (Some carol_session) ?bad sample_db) = sample_db"
    by simp
  have b1: "fst (handler sample_driver sample_env (Some carol_session) ?bad sample_db)
          = Message 400 ''Invalid status value''"
    by (simp add: sample_defs handler_def handle_PATCH_def validStatuses_def)
  have v: "\<forall>i\<in>set (incidents sample_db). valid_status (status i)"
    by (simp add: sample_defs valid_status_def)
  from status_facts_with_parsed_body [of sample_driver sample_env "Some carol_session" ?good sample_db] v
  have c: "\<forall>i\<in>set (incidents (snd (handler sample_driver sample_env (Some carol_session)
          ?good sample_db))). valid_status (status i)"
    by blast
  show ?thesis
    using h a p b b1 v c by (simp add: prod_eq_iff list_all_iff)
qed

text \<open>
  Through the route as deployed no update by an official gets as far as the validation.
\<close>

lemma route_update_by_official:
  "userType sess = JStr ''official'' \<Longrightarrow> req_method req = ''PATCH'' \<Longrightarrow>
     api_route drv e (Some sess) req d = (Message 500 ''Error updating incident status'', d)"
  by (simp add: api_route_def config_def delivered_body_def handler_def handle_PATCH_def)

text \<open>
  C3. The claim gives a validation error to a status update whose target status is
  outside the four values, with the store unchanged. The route is deployed with the body
  parser off, so the handler is given no parsed body: the update to \<^verbatim>\<open>archived\<close> that the
  official Carol sends ends in the \<^verbatim>\<open>catch\<close> block and is answered 500, with the store
  unchanged, where the same handler given the parsed body answers 400.
\<close>

theorem invalid_status_through_route:
  "\<not> bodyParser config
   \<and> userType carol_session = JStr ''official''
   \<and> api_route sample_driver sample_env (Some carol_session)
        (patch_request (JStr ''111111111111111111111111'') (JStr ''archived'')) sample_db
       = (Message 500 ''Error updating incident status'', sample_db)
   \<and> handler sample_driver sample_env (Some carol_session)
        (patch_request (JStr ''111111111111111111111111'') (JStr ''archived'')) sample_db
       = (Message 400 ''Invalid status value'', sample_db)"
  by (simp add: api_route_def config_def delivered_body_def handler_def handle_PATCH_def
        patch_request_def request_of_def carol_session_def validStatuses_def)

section \<open>Deleting an incident\<close>

lemma findOne_incident_found:
  "findOne_incident k xs = Some i \<Longrightarrow>
     \<exists>pre post. xs = pre @ i # post \<and> deleteOne k xs = pre @ post
       \<and> incident_id i = k \<and> (\<forall>x\<in>set pre. incident_id x \<noteq> k)"
  unfolding findOne_incident_def by (rule deleteOne_found)

text \<open>
  C2, as amended. For a delete request whose identifier is present and accepted by the
  identifier constructor: when no incident has that identifier the answer is 404 for every
  caller, whatever the caller's email and role; when the incident exists and the caller's
  email differs from \<^verbatim>\<open>reportedBy.email\<close> and the role is not \<^verbatim>\<open>official\<close> (the one role
  this handler treats as elevated) the answer is 403 and the store is as it was; otherwise
  the answer is 200 and exactly that record, the first with the identifier, is removed.
\<close>

theorem delete_checks:
  assumes "req_method req = ''DELETE''"
      and "q_id req = Some s" and "s \<noteq> []"
      and "ObjectId drv (JStr s) = Some k"
  shows "(findOne_incident k (incidents d) = None \<longrightarrow>
            (\<forall>sess. handler drv e (Some sess) req d = (Message 404 ''Incident not found'', d)))
       \<and> (\<forall>i. findOne_incident k (incidents d) = Some i \<longrightarrow>
            (reporter_email (reportedBy i) \<noteq> session_email sess
               \<and> userType sess \<noteq> JStr ''official'' \<longrightarrow>
               handler drv e (Some sess) req d
                 = (Message 403 ''Not authorized to delete this incident'', d))
          \<and> (reporter_email (reportedBy i) = session_email sess
               \<or> userType sess = JStr ''official'' \<longrightarrow>
               handler drv e (Some sess) req d
                 = (Message 200 ''Incident deleted successfully'',
                    d\<lparr>incidents := deleteOne k (incidents d)\<rparr>)
               \<and> (\<exists>pre post. incidents d = pre @ i # post
                     \<and> deleteOne k (incidents d) = pre @ post
                     \<and> incident_id i = k \<and> (\<forall>x\<in>set pre. incident_id x \<noteq> k))))"
  using assms findOne_incident_found [of k "incidents d"]
  by (auto simp: handler_def handle_DELETE_def)

text \<open>
  The claim as worded answers not-found whenever no incident has the given identifier.
  For an identifier the constructor rejects, here \<^verbatim>\<open>abc\<close>, no lookup is made and the
  answer is the 500 of the \<^verbatim>\<open>catch\<close> block.
\<close>

theorem delete_malformed_identifier_counterexample:
  "findOne_incident ''abc'' (incidents sample_db) = None
   \<and> handler sample_driver sample_env (Some alice_session) (delete_request ''abc'') sample_db
       = (Message 500 ''Error deleting incident'', sample_db)"
  by (simp add: sample_defs handler_def handle_DELETE_def hex_ObjectId_def findOne_incident_def)

lemma oid_1: "ObjectId sample_driver (JStr ''111111111111111111111111'') = Some ''111111111111111111111111''"
  by (simp add: sample_driver_def hex_ObjectId_def digit_of_def digit_table_def to_lower_def)

lemma oid_9: "ObjectId sample_driver (JStr ''999999999999999999999999'') = Some ''999999999999999999999999''"
  by (simp add: sample_driver_def hex_ObjectId_def digit_of_def digit_table_def to_lower_def)

text \<open>
  On the example store: an unknown identifier; Bob (role \<^verbatim>\<open>user\<close>) and Dave (role
  \<^verbatim>\<open>admin\<close>) on Alice's incident; Alice on her own incident; the official Carol.
\<close>

theorem delete_checks_witness:
  "findOne_incident ''999999999999999999999999'' (incidents sample_db) = None
   \<and> handler sample_driver sample_env (Some carol_session)
        (delete_request ''999999999999999999999999'') sample_db
       = (Message 404 ''Incident not found'', sample_db)
   \<and> findOne_incident ''111111111111111111111111'' (incidents sample_db) = Some incident_1
   \<and> handler sample_driver sample_env (Some bob_session)
        (delete_request ''111111111111111111111111'') sample_db
       = (Message 403 ''Not authorized to delete this incident'', sample_db)
   \<and> handler sample_driver sample_env (Some dave_session)
        (delete_request ''111111111111111111111111'') sample_db
       = (Message 403 ''Not authorized to delete this incident'', sample_db)
   \<and> handler sample_driver sample_env (Some alice_session)
        (delete_request ''111111111111111111111111'') sample_db
       = (Message 200 ''Incident deleted successfully'', sample_db\<lparr>incidents := [incident_2]\<rparr>)
   \<and> handler sample_driver sample_env (Some carol_session)
        (delete_request ''111111111111111111111111'') sample_db
       = (Message 200 ''Incident deleted successfully'', sample_db\<lparr>incidents := [incident_2]\<rparr>)"
proof -
  let ?one = "''111111111111111111111111''" and ?nine = "''999999999999999999999999''"
  have r: "req_method (delete_request ?one) = ''DELETE''" "q_id (delete_request ?one) = Some ?one"
          "req_method (delete_request ?nine) = ''DELETE''" "q_id (delete_request ?nine) = Some ?nine"
          "?one \<noteq> []" "?nine \<noteq> []"
    by (simp_all add: delete_request_def request_of_def)
  have f9: "findOne_incident ?nine (incidents sample_db) = None"
    by (simp add: findOne_incident_def sample_defs)
  have f1: "findOne_incident ?one (incidents sample_db) = Some incident_1"
    by (simp add: findOne_incident_def sample_defs)
  have del: "deleteOne ?one (incidents sample_db) = [incident_2]"
    by (simp add: sample_defs)
  have who: "reporter_email (reportedBy incident_1) \<noteq> session_email bob_session"
      "userType bob_session \<noteq> JStr ''official''"
      "reporter_email (reportedBy incident_1) \<noteq> session_email dave_session"
      "userType dave_session \<noteq> JStr ''official''"
      "reporter_email (reportedBy incident_1) = session_email alice_session"
      "userType carol_session = JStr ''official''"
    by (simp_all add: sample_defs)
  note t9 = delete_checks [OF r(3) r(4) r(6) oid_9, where d = sample_db and e = sample_env
                  and sess = carol_session]
  note tb = delete_checks [OF r(1) r(2) r(5) oid_1, where d = sample_db and e = sample_env
                  and sess = bob_session]
  note td = delete_checks [OF r(1) r(2) r(5) oid_1, where d = sample_db and e = sample_env
                  and sess = dave_session]
  note ta = delete_checks [OF r(1) r(2) r(5) oid_1, where d = sample_db and e = sample_env
                  and sess = alice_session]
  note tc = delete_checks [OF r(1) r(2) r(5) oid_1, where d = sample_db and e = sample_env
                  and sess = carol_session]
  show ?thesis
    using t9 tb td ta tc f9 f1 del who by simp
qed

section \<open>Creating an incident\<close>

lemma handle_POST_other:
  "form req = Some f \<Longrightarrow>
     handle_POST e sess (req\<lparr>form := Some (f\<lparr>f_other := other\<rparr>)\<rparr>) d = handle_POST e sess req d"
  by (simp add: handle_POST_def Let_def split: option.splits)

text \<open>
  C7. After a successful create the stored incident has status \<^verbatim>\<open>pending\<close>, no
  comments, and a \<^verbatim>\<open>reportedBy\<close> made of the identifier, name and email of the user
  record found under the caller's session email; it is appended to the collection, and
  no other field of the form that the caller may send, a \<^verbatim>\<open>reportedBy\<close> among them,
  changes the outcome.
\<close>

theorem create_snapshots_caller:
  assumes "handler drv e (Some sess) req d = (Created i, d')"
  shows "(\<exists>u. findOne_user (session_email sess) (users d) = Some u
            \<and> user_email u = session_email sess
            \<and> reportedBy i = \<lparr> reporter_id = user_id u, reporter_name = user_name u,
                                reporter_email = user_email u \<rparr>)
       \<and> status i = ''pending'' \<and> comments i = []
       \<and> incidents d' = incidents d @ [i] \<and> users d' = users d
       \<and> (\<forall>f other. form req = Some f \<longrightarrow>
             handler drv e (Some sess) (req\<lparr>form := Some (f\<lparr>f_other := other\<rparr>)\<rparr>) d
               = (Created i, d'))"
proof -
  have g: "fst (handle_GET drv req d) \<noteq> Created i"
    by (simp add: handle_GET_def Let_def split: option.splits jsnum.splits)
  have p: "fst (handle_PATCH drv e sess req d) \<noteq> Created i"
    by (simp add: handle_PATCH_def Let_def split: option.splits jsval.splits prod.splits)
  have dl: "fst (handle_DELETE drv sess req d) \<noteq> Created i"
    by (simp add: handle_DELETE_def Let_def split: option.splits)
  from assms g p dl have m: "req_method req = ''POST''"
    by (auto simp: handler_def split: if_splits)
  with assms have c: "handle_POST e sess req d = (Created i, d')"
    by (simp add: handler_def)
  have fu: "\<And>u. findOne_user (session_email sess) (users d) = Some u \<Longrightarrow> user_email u = session_email sess"
    unfolding findOne_user_def by (auto simp: find_Some_iff)
  from c have 1: "\<exists>u. findOne_user (session_email sess) (users d) = Some u
            \<and> user_email u = session_email sess
            \<and> reportedBy i = \<lparr> reporter_id = user_id u, reporter_name = user_name u,
                                reporter_email = user_email u \<rparr>"
    using fu by (auto simp: handle_POST_def Let_def insertOne_def split: option.splits if_splits)
  from c have 2: "status i = ''pending'' \<and> comments i = []
       \<and> incidents d' = incidents d @ [i] \<and> users d' = users d"
    by (auto simp: handle_POST_def Let_def insertOne_def split: option.splits if_splits)
  have 3: "\<forall>f other. form req = Some f \<longrightarrow>
             handler drv e (Some sess) (req\<lparr>form := Some (f\<lparr>f_other := other\<rparr>)\<rparr>) d
               = (Created i, d')"
    using c m by (simp add: handler_def handle_POST_other)
  from 1 2 3 show ?thesis by blast
qed

text \<open>
  Alice's create, with and without a \<^verbatim>\<open>reportedBy\<close> field naming somebody else.
\<close>

theorem create_snapshots_caller_witness:
  "handler sample_driver sample_env (Some alice_session) (post_request bus_form) sample_db
     = (Created created_incident,
        sample_db\<lparr>incidents := incidents sample_db @ [created_incident]\<rparr>)
   \<and> findOne_user (session_email alice_session) (users sample_db) = Some alice
   \<and> reportedBy created_incident
       = \<lparr> reporter_id = user_id alice, reporter_name = user_name alice,
           reporter_email = user_email alice \<rparr>
   \<and> status created_incident = ''pending'' \<and> comments created_incident = []
   \<and> f_other bus_form = [(''reportedBy'', ''mallory@example.org'')]
   \<and> handler sample_driver sample_env (Some alice_session)
        (post_request (bus_form\<lparr>f_other := []\<rparr>)) sample_db
     = (Created created_incident,
        sample_db\<lparr>incidents := incidents sample_db @ [created_incident]\<rparr>)"
proof -
  have u: "findOne_user (session_email alice_session) (users sample_db) = Some alice"
    by (simp add: findOne_user_def sample_defs)
  have f: "form (post_request bus_form) = Some bus_form"
          "(post_request bus_form)\<lparr>form := Some (bus_form\<lparr>f_other := []\<rparr>)\<rparr>
             = post_request (bus_form\<lparr>f_other := []\<rparr>)"
          "f_other bus_form = [(''reportedBy'', ''mallory@example.org'')]"
    by (simp_all add: post_request_def bus_form_def)
  from create_snapshots_caller [OF post_example] f(1)
  have r: "reportedBy created_incident
             = \<lparr> reporter_id = user_id alice, reporter_name = user_name alice,
                 reporter_email = user_email alice \<rparr>"
          "status created_incident = ''pending''" "comments created_incident = []"
          "handler sample_driver sample_env (Some alice_session)
             ((post_request bus_form)\<lparr>form := Some (bus_form\<lparr>f_other := []\<rparr>)\<rparr>) sample_db
           = (Created created_incident,
              sample_db\<lparr>incidents := incidents sample_db @ [created_incident]\<rparr>)"
    using u by auto
  show ?thesis
    using post_example u r f(3) unfolding f(2) by simp
qed

section \<open>Updating the status\<close>

text \<open>
  When \<^verbatim>\<open>req.body\<close> is \<^verbatim>\<open>undefined\<close>, as the framework leaves it for a route whose
  \<^verbatim>\<open>config\<close> turns the body parser off, the destructuring throws and an official's
  update ends in the \<^verbatim>\<open>catch\<close> block.
\<close>

lemma update_without_parsed_body:
  "userType sess = JStr ''official'' \<Longrightarrow> req_method req = ''PATCH'' \<Longrightarrow> body req = JUndefined \<Longrightarrow>
     handler drv e (Some sess) req d = (Message 500 ''Error updating incident status'', d)"
  by (simp add: handler_def handle_PATCH_def)

text \<open>
  C8. A successful status update replaces one incident of the collection, the first
  whose identifier is the one given, by a record that differs from it in \<^verbatim>\<open>status\<close>
  (the requested value), \<^verbatim>\<open>updatedAt\<close> (the clock) and \<^verbatim>\<open>updatedBy\<close> (email and name of the
  acting official) only: identifier, title, location, type, severity, description,
  photoUrl, reportedBy, comments and createdAt are as before, and so are every other
  incident and the users.
\<close>

theorem status_update_frame:
  assumes "handler drv e (Some sess) req d
             = (Message 200 ''Incident status updated successfully'', d')"
  shows "\<exists>pre i i' post s idv.
           incidents d = pre @ i # post \<and> incidents d' = pre @ i' # post
         \<and> users d' = users d
         \<and> status i' = s \<and> updatedAt i' = now e 0
         \<and> updatedBy i' = Some \<lparr> updater_email = session_email sess,
                                   updater_name = session_name sess \<rparr>
         \<and> incident_id i' = incident_id i \<and> title i' = title i
         \<and> location i' = location i \<and> type i' = type i \<and> severity i' = severity i
         \<and> description i' = description i \<and> photoUrl i' = photoUrl i
         \<and> reportedBy i' = reportedBy i \<and> comments i' = comments i
         \<and> createdAt i' = createdAt i
         \<and> get_prop (body req) ''status'' = Some (JStr s) \<and> valid_status s
         \<and> get_prop (body req) ''id'' = Some idv \<and> ObjectId drv idv = Some (incident_id i)
         \<and> list_all (\<lambda>x. incident_id x \<noteq> incident_id i) pre
         \<and> userType sess = JStr ''official''"
proof -
  have g: "fst (handle_GET drv req d) \<noteq> Message 200 ''Incident status updated successfully''"
    by (simp add: handle_GET_def Let_def split: option.splits jsnum.splits)
  have p: "fst (handle_POST e sess req d)
             \<noteq> Message 200 ''Incident status updated successfully''"
    by (simp add: handle_POST_def Let_def split: option.splits)
  have dl: "fst (handle_DELETE drv sess req d)
              \<noteq> Message 200 ''Incident status updated successfully''"
    by (simp add: handle_DELETE_def Let_def split: option.splits)
  from assms g p dl
  have c: "handle_PATCH drv e sess req d
             = (Message 200 ''Incident status updated successfully'', d')"
    by (auto simp: handler_def split: if_splits)
  let ?f = "\<lambda>s i. i\<lparr> status := s, updatedAt := now e 0,
                       updatedBy := Some \<lparr> updater_email = session_email sess,
                                          updater_name = session_name sess \<rparr> \<rparr>"
  from c obtain idv s k n ys where
      o: "userType sess = JStr ''official''"
         "get_prop (body req) ''id'' = Some idv" "get_prop (body req) ''status'' = Some (JStr s)"
         "s \<in> set validStatuses" "ObjectId drv idv = Some k"
         "updateOne k (?f s) (incidents d) = (n, ys)" "n \<noteq> 0" "d' = d\<lparr>incidents := ys\<rparr>"
    by (auto simp: handle_PATCH_def Let_def
             split: option.splits jsval.splits prod.splits if_splits)
  from updateOne_cases [OF o(6)] o(7) obtain pre i post where
      u: "incidents d = pre @ i # post" "ys = pre @ ?f s i # post" "incident_id i = k"
         "\<forall>x\<in>set pre. incident_id x \<noteq> k"
    by auto
  define i' where "i' = ?f s i"
  have 1: "incidents d = pre @ i # post \<and> incidents d' = pre @ i' # post
         \<and> users d' = users d"
    using o u by (simp add: i'_def)
  have 2: "status i' = s \<and> updatedAt i' = now e 0
         \<and> updatedBy i' = Some \<lparr> updater_email = session_email sess,
                                   updater_name = session_name sess \<rparr>"
    by (simp add: i'_def)
  have 3: "incident_id i' = incident_id i \<and> title i' = title i
         \<and> location i' = location i \<and> type i' = type i \<and> severity i' = severity i
         \<and> description i' = description i \<and> photoUrl i' = photoUrl i
         \<and> reportedBy i' = reportedBy i \<and> comments i' = comments i
         \<and> createdAt i' = createdAt i"
    by (simp add: i'_def)
  have 4: "get_prop (body req) ''status'' = Some (JStr s) \<and> valid_status s
         \<and> get_prop (body req) ''id'' = Some idv \<and> ObjectId drv idv = Some (incident_id i)
         \<and> list_all (\<lambda>x. incident_id x \<noteq> incident_id i) pre
         \<and> userType sess = JStr ''official''"
    using o u by (simp add: valid_status_iff list_all_iff)
  from 1 2 3 4 show ?thesis
    by blast
qed

lemma patch_example:
  "handler sample_driver sample_env (Some carol_session)
     (patch_request (JStr ''111111111111111111111111'') (JStr ''in_progress'')) sample_db
   = (Message 200 ''Incident status updated successfully'',
      sample_db\<lparr>incidents := [updated_incident_1, incident_2]\<rparr>)"
  by (simp add: handler_def handle_PATCH_def patch_request_def request_of_def carol_session_def
        validStatuses_def oid_1 sample_db_def incident_1_def incident_2_def sample_env_def
        updated_incident_1_def)

text \<open>
  The official Carol moves the first example incident to \<^verbatim>\<open>in_progress\<close>.
\<close>

theorem status_update_frame_witness:
  "handler sample_driver sample_env (Some carol_session)
     (patch_request (JStr ''111111111111111111111111'') (JStr ''in_progress'')) sample_db
   = (Message 200 ''Incident status updated successfully'',
      sample_db\<lparr>incidents := [updated_incident_1, incident_2]\<rparr>)
   \<and> (\<exists>pre i i' post.
         incidents sample_db = pre @ i # post
       \<and> [updated_incident_1, incident_2] = pre @ i' # post
       \<and> status i' = ''in_progress'' \<and> updatedAt i' = now sample_env 0
       \<and> updatedBy i' = Some \<lparr> updater_email = session_email carol_session,
                                 updater_name = session_name carol_session \<rparr>
       \<and> title i' = title i \<and> location i' = location i \<and> type i' = type i
       \<and> severity i' = severity i \<and> description i' = description i
       \<and> photoUrl i' = photoUrl i \<and> reportedBy i' = reportedBy i
       \<and> comments i' = comments i \<and> createdAt i' = createdAt i)
   \<and> status updated_incident_1 = ''in_progress''
   \<and> status incident_1 = ''pending''"
proof -
  have s: "get_prop (body (patch_request (JStr ''111111111111111111111111'')
                             (JStr ''in_progress''))) ''status'' = Some (JStr ''in_progress'')"
    by (simp add: patch_request_def request_of_def)
  from status_update_frame [OF patch_example] s
  have "\<exists>pre i i' post.
         incidents sample_db = pre @ i # post
       \<and> [updated_incident_1, incident_2] = pre @ i' # post
       \<and> status i' = ''in_progress'' \<and> updatedAt i' = now sample_env 0
       \<and> updatedBy i' = Some \<lparr> updater_email = session_email carol_session,
                                 updater_name = session_name carol_session \<rparr>
       \<and> title i' = title i \<and> location i' = location i \<and> type i' = type i
       \<and> severity i' = severity i \<and> description i' = description i
       \<and> photoUrl i' = photoUrl i \<and> reportedBy i' = reportedBy i
       \<and> comments i' = comments i \<and> createdAt i' = createdAt i"
    by (elim exE conjE) (simp, blast)
  then show ?thesis
    using patch_example by (simp add: updated_incident_1_def incident_1_def)
qed

section \<open>Listing: defaults of page and limit\<close>

lemma ceil_div_eq: "ceil_div n m = - ((- n) div m)"
  unfolding ceil_div_def by (rule ceiling_divide_eq_div)

lemma parseInt_1: "parseInt_str ''1'' = Num 1"
  by (simp add: parseInt_str_def mathInt_def to_number_def safe_def is_space_def digit_of_def
        digit_table_def)

lemma parseInt_10: "parseInt_str ''10'' = Num 10"
  by (simp add: parseInt_str_def mathInt_def to_number_def safe_def is_space_def digit_of_def
        digit_table_def)

lemma parseInt_absent: "parseInt_str ''undefined'' = NaN"
  by (simp add: parseInt_str_def mathInt_def is_space_def digit_of_def digit_table_def)

lemma or_default_nonzero: "d \<noteq> 0 \<Longrightarrow> or_default x d \<noteq> Num 0 \<and> or_default x d \<noteq> NaN"
  by (cases x) auto

lemma parseInt_safe: "parseInt x = Num n \<Longrightarrow> safe n"
  by (cases x) (auto simp: parseInt_str_def to_number_def split: option.splits if_splits)

lemma or_default_safe: "or_default (parseInt x) d = Num n \<Longrightarrow> safe d \<Longrightarrow> safe n"
  by (cases "parseInt x") (auto dest: parseInt_safe split: if_splits)

lemma handle_GET_page:
  "or_default (parseInt (q_page req)) 1 = or_default (parseInt pg) 1 \<Longrightarrow>
     handle_GET drv (req\<lparr>q_page := pg\<rparr>) d = handle_GET drv req d"
  by (simp add: handle_GET_def split: jsnum.splits)

lemma handle_GET_limit:
  "or_default (parseInt (q_limit req)) 10 = or_default (parseInt lm) 10 \<Longrightarrow>
     handle_GET drv (req\<lparr>q_limit := lm\<rparr>) d = handle_GET drv req d"
  by (simp add: handle_GET_def split: jsnum.splits)

lemma handler_page:
  "or_default (parseInt (q_page req)) 1 = or_default (parseInt pg) 1 \<Longrightarrow>
     handler drv e sn (req\<lparr>q_page := pg\<rparr>) d = handler drv e sn req d"
  by (simp add: handler_def handle_GET_page handle_POST_def handle_PATCH_def handle_DELETE_def
           split: option.splits)

lemma handler_limit:
  "or_default (parseInt (q_limit req)) 10 = or_default (parseInt lm) 10 \<Longrightarrow>
     handler drv e sn (req\<lparr>q_limit := lm\<rparr>) d = handler drv e sn req d"
  by (simp add: handler_def handle_GET_limit handle_POST_def handle_PATCH_def handle_DELETE_def
           split: option.splits)

lemma list_response:
  assumes "handler drv e sn req d = (IncidentList ws n pg tp, d')"
  shows "handle_GET drv req d = (IncidentList ws n pg tp, d')"
proof -
  from assms obtain sess where sn: "sn = Some sess"
    by (cases sn) (auto simp: handler_def)
  have p: "fst (handle_POST e sess req d) \<noteq> IncidentList ws n pg tp"
    by (simp add: handle_POST_def Let_def split: option.splits)
  have u: "fst (handle_PATCH drv e sess req d) \<noteq> IncidentList ws n pg tp"
    by (simp add: handle_PATCH_def Let_def split: option.splits jsval.splits prod.splits)
  have dl: "fst (handle_DELETE drv sess req d) \<noteq> IncidentList ws n pg tp"
    by (simp add: handle_DELETE_def Let_def split: option.splits)
  from assms sn p u dl show ?thesis
    by (auto simp: handler_def split: if_splits)
qed

lemma handle_GET_list:
  assumes "handle_GET drv req d = (IncidentList ws n pg tp, d')"
  shows "or_default (parseInt (q_page req)) 1 = Num pg
       \<and> (\<exists>lm. or_default (parseInt (q_limit req)) 10 = Num lm \<and> tp = ceil_div n lm)"
  using assms
  by (auto simp: handle_GET_def Let_def split: option.splits jsnum.splits if_splits)

text \<open>
  C9. When \<^verbatim>\<open>page\<close> parses to zero or to no number (absent or not numeric) the
  request is answered as with \<^verbatim>\<open>page=1\<close>, and when \<^verbatim>\<open>limit\<close> does, as with \<^verbatim>\<open>limit=10\<close>;
  an absent parameter parses to no number; the defaulted page and the defaulted limit
  are never zero and never NaN; and in every list answer the echoed page is the
  defaulted one and totalPages is computed from the defaulted limit.
\<close>

theorem zero_page_and_limit_default:
  "((parseInt (q_page req) = NaN \<or> parseInt (q_page req) = Num 0) \<longrightarrow>
      handler drv e sn req d = handler drv e sn (req\<lparr>q_page := Some ''1''\<rparr>) d)
   \<and> ((parseInt (q_limit req) = NaN \<or> parseInt (q_limit req) = Num 0) \<longrightarrow>
      handler drv e sn req d = handler drv e sn (req\<lparr>q_limit := Some ''10''\<rparr>) d)
   \<and> parseInt None = NaN
   \<and> or_default (parseInt (q_page req)) 1 \<noteq> Num 0
   \<and> or_default (parseInt (q_page req)) 1 \<noteq> NaN
   \<and> or_default (parseInt (q_limit req)) 10 \<noteq> Num 0
   \<and> or_default (parseInt (q_limit req)) 10 \<noteq> NaN
   \<and> (\<forall>ws n pg tp d'. handler drv e sn req d = (IncidentList ws n pg tp, d') \<longrightarrow>
         Num pg = or_default (parseInt (q_page req)) 1 \<and> pg \<noteq> 0
         \<and> (\<exists>lm. Num lm = or_default (parseInt (q_limit req)) 10 \<and> lm \<noteq> 0
                \<and> tp = ceil_div n lm))"
proof (intro conjI)
  show "(parseInt (q_page req) = NaN \<or> parseInt (q_page req) = Num 0) \<longrightarrow>
      handler drv e sn req d = handler drv e sn (req\<lparr>q_page := Some ''1''\<rparr>) d"
    using handler_page [of req "Some ''1''" drv e sn d] by (auto simp: parseInt_1)
  show "(parseInt (q_limit req) = NaN \<or> parseInt (q_limit req) = Num 0) \<longrightarrow>
      handler drv e sn req d = handler drv e sn (req\<lparr>q_limit := Some ''10''\<rparr>) d"
    using handler_limit [of req "Some ''10''" drv e sn d] by (auto simp: parseInt_10)
  show "parseInt None = NaN"
    by (simp add: parseInt_absent)
  show "or_default (parseInt (q_page req)) 1 \<noteq> Num 0"
       "or_default (parseInt (q_page req)) 1 \<noteq> NaN"
    using or_default_nonzero [of 1 "parseInt (q_page req)"] by simp_all
  show "or_default (parseInt (q_limit req)) 10 \<noteq> Num 0"
       "or_default (parseInt (q_limit req)) 10 \<noteq> NaN"
    using or_default_nonzero [of 10 "parseInt (q_limit req)"] by simp_all
  show "\<forall>ws n pg tp d'. handler drv e sn req d = (IncidentList ws n pg tp, d') \<longrightarrow>
         Num pg = or_default (parseInt (q_page req)) 1 \<and> pg \<noteq> 0
         \<and> (\<exists>lm. Num lm = or_default (parseInt (q_limit req)) 10 \<and> lm \<noteq> 0
                \<and> tp = ceil_div n lm)"
  proof (intro allI impI)
    fix ws n pg tp d'
    assume "handler drv e sn req d = (IncidentList ws n pg tp, d')"
    then have "handle_GET drv req d = (IncidentList ws n pg tp, d')"
      by (rule list_response)
    from handle_GET_list [OF this] obtain lm where
      g: "or_default (parseInt (q_page req)) 1 = Num pg"
         "or_default (parseInt (q_limit req)) 10 = Num lm" "tp = ceil_div n lm"
      by blast
    have "pg \<noteq> 0" "lm \<noteq> 0"
      using g or_default_nonzero [of 1 "parseInt (q_page req)"]
            or_default_nonzero [of 10 "parseInt (q_limit req)"] by auto
    with g show "Num pg = or_default (parseInt (q_page req)) 1 \<and> pg \<noteq> 0
         \<and> (\<exists>lm. Num lm = or_default (parseInt (q_limit req)) 10 \<and> lm \<noteq> 0
                \<and> tp = ceil_div n lm)"
      by auto
  qed
qed

section \<open>Listing: the window\<close>

lemma sorted_desc: "sorted_wrt (\<lambda>a b. createdAt b \<le> createdAt a) (sort_createdAt_desc xs)"
proof -
  have "sorted (map (\<lambda>i. - createdAt i) (sort_createdAt_desc xs))"
    unfolding sort_createdAt_desc_def by (rule sorted_sort_key)
  then show ?thesis
    by (simp add: sorted_map sorted_wrt_iff_nth_less)
qed

lemma mset_desc: "mset (sort_createdAt_desc xs) = mset xs"
  by (simp add: sort_createdAt_desc_def)

lemma beyond_last_page:
  assumes "1 \<le> limit" and "ceil_div n limit < page"
  shows "n \<le> (page - 1) * limit"
proof -
  from assms(2) have "\<lceil>real_of_int n / real_of_int limit\<rceil> \<le> page - 1"
    by (simp add: ceil_div_def)
  then have "real_of_int n / real_of_int limit \<le> real_of_int (page - 1)"
    by (simp only: ceiling_le_iff)
  with assms(1) have "real_of_int n \<le> real_of_int (page - 1) * real_of_int limit"
    by (simp add: pos_divide_le_eq)
  then have "real_of_int n \<le> real_of_int ((page - 1) * limit)"
    by simp
  then show ?thesis
    by (simp only: of_int_le_iff)
qed

lemma handler_GET_window:
  assumes "req_method req = ''GET''"
      and "compile_query drv (build_query (q_search req)) = Some p"
      and "or_default (parseInt (q_page req)) 1 = Num page"
      and "or_default (parseInt (q_limit req)) 10 = Num limit"
      and "1 \<le> page" and "1 \<le> limit"
      and "(page - 1) * limit < 2 ^ 53"
      and "matching = sort_createdAt_desc (filter p (incidents d))"
      and "window = take (nat limit) (drop (nat ((page - 1) * limit)) matching)"
      and "n = int (length matching)"
      and "n < 2 ^ 53"
  shows "handler drv e (Some sess) req d
           = (IncidentList (map normalise window) n page (ceil_div n limit), d)"
proof -
  have len: "length matching = length (filter p (incidents d))"
    using assms(8) mset_desc [of "filter p (incidents d)"] by (metis size_mset)
  have skip: "\<not> (page - 1) * limit < 0"
    using assms(5,6) by (simp add: mult_less_0_iff)
  then have sk: "safe ((page - 1) * limit)"
    using assms(7) by (simp add: safe_def)
  have sn: "safe (int (length (filter p (incidents d))))"
    using assms(10,11) len by (simp add: safe_def)
  have lim: "limit \<noteq> 0" "\<bar>limit\<bar> = limit"
    using assms(6) by simp_all
  show ?thesis
    using assms(1,2) skip sk sn lim len
    by (simp add: handler_def handle_GET_def Let_def find_window_def countDocuments_def
          assms(3) assms(4) assms(8)[symmetric] assms(9)[symmetric] assms(10))
qed

text \<open>
  C6, as amended. For a list request whose page and limit, after defaulting, are at
  least 1, whose page, limit, offset \<open>(page - 1) * limit\<close> and count of matching records
  are below \<open>2^53\<close>, and whose filter the store accepts: the answer is 200 and carries
  the window of the matching records, sorted by \<^verbatim>\<open>createdAt\<close> descending, that starts
  at the offset and has at most \<open>limit\<close> records, the count of all matching records, the
  page, and totalPages = \<open>\<lceil>total / limit\<rceil>\<close>; beyond totalPages the window is empty.
\<close>

theorem list_window:
  assumes "req_method req = ''GET''"
      and "compile_query drv (build_query (q_search req)) = Some p"
      and "or_default (parseInt (q_page req)) 1 = Num page"
      and "or_default (parseInt (q_limit req)) 10 = Num limit"
      and "1 \<le> page" and "page < 2 ^ 53"
      and "1 \<le> limit" and "limit < 2 ^ 53"
      and "(page - 1) * limit < 2 ^ 53"
      and "matching = sort_createdAt_desc (filter p (incidents d))"
      and "window = take (nat limit) (drop (nat ((page - 1) * limit)) matching)"
      and "n = int (length matching)"
      and "n < 2 ^ 53"
  shows "handler drv e (Some sess) req d
           = (IncidentList (map normalise window) n page (ceil_div n limit), d)
       \<and> int (length window) \<le> limit
       \<and> mset matching = mset (filter p (incidents d))
       \<and> sorted_wrt (\<lambda>a b. createdAt b \<le> createdAt a) matching
       \<and> ceil_div n limit = \<lceil>real_of_int n / real_of_int limit\<rceil>
       \<and> (ceil_div n limit < page \<longrightarrow> window = [])"
proof -
  note h = handler_GET_window [OF assms(1-5) assms(7) assms(9-13)]
  have w: "int (length window) \<le> limit"
    using assms(7,11) by simp
  have e: "ceil_div n limit < page \<longrightarrow> window = []"
  proof
    assume "ceil_div n limit < page"
    from beyond_last_page [OF assms(7) this] have "n \<le> (page - 1) * limit" .
    then have "length matching \<le> nat ((page - 1) * limit)"
      using assms(12) by linarith
    then show "window = []"
      using assms(11) by simp
  qed
  show ?thesis
    using h w e mset_desc sorted_desc assms(10) by (simp add: ceil_div_def)
qed

lemma parseInt_minus_1: "parseInt_str ''-1'' = Num (- 1)"
  by (simp add: parseInt_str_def mathInt_def to_number_def safe_def is_space_def digit_of_def
        digit_table_def)

text \<open>
  The claim as worded covers every list request. With \<^verbatim>\<open>page=-1\<close> the offset is
  negative, the store rejects it, and the answer is the 500 of the \<^verbatim>\<open>catch\<close> block.
\<close>

theorem negative_page_counterexample:
  "handler sample_driver sample_env (Some alice_session)
     (get_request (Some ''-1'') None None) sample_db
   = (Message 500 ''Error fetching incidents'', sample_db)"
  by (simp add: sample_defs handler_def handle_GET_def build_query_def find_window_def
        parseInt_minus_1 parseInt_absent safe_def Let_def)

lemma parseInt_3: "parseInt_str ''3'' = Num 3"
  by (simp add: parseInt_str_def mathInt_def to_number_def safe_def is_space_def digit_of_def
        digit_table_def)

lemma sample_sorted:
  "sort_createdAt_desc (filter (\<lambda>i. True) (incidents sample_db)) = [incident_2, incident_1]"
  by (simp add: sort_createdAt_desc_def sample_db_def incident_1_def incident_2_def)

lemma get_request_facts:
  "req_method (get_request a b None) = ''GET''"
  "compile_query drv (build_query (q_search (get_request a b None))) = Some (\<lambda>i. True)"
  "q_page (get_request a b c) = a" "q_limit (get_request a b c) = b"
  by (simp_all add: get_request_def request_of_def build_query_def)

lemma sample_matching:
  "[incident_2, incident_1] = sort_createdAt_desc (filter (\<lambda>i. True) (incidents sample_db))"
  by (simp only: sample_sorted)

text \<open>
  Page 3 of 10 per page over the two example incidents is empty with totalPages 1; page
  1 of 1 per page is the newest incident with totalPages 2.
\<close>

theorem list_window_witness:
  "req_method (get_request (Some ''3'') (Some ''10'') None) = ''GET''
   \<and> handler sample_driver sample_env (Some alice_session)
        (get_request (Some ''3'') (Some ''10'') None) sample_db
       = (IncidentList [] 2 3 1, sample_db)
   \<and> handler sample_driver sample_env (Some alice_session)
        (get_request (Some ''1'') (Some ''1'') None) sample_db
       = (IncidentList [normalise incident_2] 2 1 2, sample_db)"
proof -
  have pl: "or_default (parseInt (q_page (get_request (Some ''3'') (Some ''10'') None))) 1 = Num 3"
           "or_default (parseInt (q_limit (get_request (Some ''3'') (Some ''10'') None))) 10 = Num 10"
           "or_default (parseInt (q_page (get_request (Some ''1'') (Some ''1'') None))) 1 = Num 1"
           "or_default (parseInt (q_limit (get_request (Some ''1'') (Some ''1'') None))) 10 = Num 1"
    by (simp_all add: get_request_facts parseInt_3 parseInt_10 parseInt_1)
  have b: "(1::int) \<le> 3" "(3::int) < 2 ^ 53" "(1::int) \<le> 10" "(10::int) < 2 ^ 53"
          "((3::int) - 1) * 10 < 2 ^ 53" "(2::int) < 2 ^ 53"
          "(1::int) \<le> 1" "(1::int) < 2 ^ 53" "((1::int) - 1) * 1 < 2 ^ 53"
    by simp_all
  have w3: "[] = take (nat 10) (drop (nat ((3 - 1) * 10)) [incident_2, incident_1])"
    by simp
  have w1: "[incident_2] = take (nat 1) (drop (nat ((1 - 1) * 1)) [incident_2, incident_1])"
    by simp
  have n2: "2 = int (length [incident_2, incident_1])"
    by simp
  have tp: "ceil_div 2 10 = 1" "ceil_div 2 1 = 2"
    by (simp_all add: ceil_div_eq)
  have a: "handler sample_driver sample_env (Some alice_session)
        (get_request (Some ''3'') (Some ''10'') None) sample_db
       = (IncidentList [] 2 3 1, sample_db)"
    using list_window [OF get_request_facts(1,2) pl(1) pl(2) b(1) b(2) b(3) b(4) b(5) sample_matching
                 w3 n2 b(6),
                where e = sample_env and sess = alice_session and drv = sample_driver,
                THEN conjunct1]
    by (simp only: tp list.map)
  have c: "handler sample_driver sample_env (Some alice_session)
        (get_request (Some ''1'') (Some ''1'') None) sample_db
       = (IncidentList [normalise incident_2] 2 1 2, sample_db)"
    using list_window [OF get_request_facts(1,2) pl(3) pl(4) b(7) b(8) b(7) b(8) b(9) sample_matching
                 w1 n2 b(6),
                where e = sample_env and sess = alice_session and drv = sample_driver,
                THEN conjunct1]
    by (simp only: tp list.map)
  show ?thesis using get_request_facts(1) a c by simp
qed

text \<open>
  A page of \<open>2^53 + 1\<close> is read by the handler as a double that is not that integer; the
  model leaves the answer open.
\<close>

lemma unsafe_page_left_open:
  "handler sample_driver sample_env (Some alice_session)
     (get_request (Some ''9007199254740993'') None None) sample_db
   = (Unmodelled, sample_db)"
  by (simp add: handler_def handle_GET_def get_request_def request_of_def parseInt_str_def
        mathInt_def to_number_def safe_def is_space_def digit_of_def digit_table_def)

text \<open>
  \<^verbatim>\<open>page=0\<close>, a limit that is not a number, an absent page and \<^verbatim>\<open>limit=0\<close> are answered
  as \<^verbatim>\<open>page=1\<close> and \<^verbatim>\<open>limit=10\<close>.
\<close>

theorem zero_page_and_limit_default_witness:
  "parseInt (q_page (get_request (Some ''0'') (Some ''abc'') None)) = Num 0
   \<and> parseInt (q_limit (get_request (Some ''0'') (Some ''abc'') None)) = NaN
   \<and> parseInt (q_limit (get_request None (Some ''0'') None)) = Num 0
   \<and> handler sample_driver sample_env (Some alice_session)
        (get_request (Some ''0'') (Some ''abc'') None) sample_db
     = handler sample_driver sample_env (Some alice_session)
        (get_request (Some ''1'') (Some ''10'') None) sample_db
   \<and> handler sample_driver sample_env (Some alice_session)
        (get_request None (Some ''0'') None) sample_db
     = handler sample_driver sample_env (Some alice_session)
        (get_request (Some ''1'') (Some ''10'') None) sample_db
   \<and> handler sample_driver sample_env (Some alice_session)
        (get_request (Some ''1'') (Some ''10'') None) sample_db
     = (IncidentList [normalise incident_2, normalise incident_1] 2 1 1, sample_db)"
proof -
  have z: "parseInt_str ''0'' = Num 0" "parseInt_str ''abc'' = NaN"
    by (simp_all add: parseInt_str_def mathInt_def to_number_def safe_def is_space_def
          digit_of_def digit_table_def)
  have u: "\<And>a b c. (get_request a b None)\<lparr>q_page := c\<rparr> = get_request c b None"
          "\<And>a b c. (get_request a b None)\<lparr>q_limit := c\<rparr> = get_request a c None"
          "\<And>a b. q_page (get_request a b None) = a" "\<And>a b. q_limit (get_request a b None) = b"
    by (simp_all add: get_request_def)
  have 1: "handler sample_driver sample_env (Some alice_session)
        (get_request (Some ''0'') (Some ''abc'') None) sample_db
     = handler sample_driver sample_env (Some alice_session)
        (get_request (Some ''1'') (Some ''abc'') None) sample_db"
    using zero_page_and_limit_default [of "get_request (Some ''0'') (Some ''abc'') None" sample_driver sample_env
                 "Some alice_session" sample_db]
    by (simp add: u z)
  have 2: "handler sample_driver sample_env (Some alice_session)
        (get_request (Some ''1'') (Some ''abc'') None) sample_db
     = handler sample_driver sample_env (Some alice_session)
        (get_request (Some ''1'') (Some ''10'') None) sample_db"
    using zero_page_and_limit_default [of "get_request (Some ''1'') (Some ''abc'') None" sample_driver sample_env
                 "Some alice_session" sample_db]
    by (simp add: u z)
  have 3: "handler sample_driver sample_env (Some alice_session)
        (get_request None (Some ''0'') None) sample_db
     = handler sample_driver sample_env (Some alice_session)
        (get_request (Some ''1'') (Some ''0'') None) sample_db"
    using zero_page_and_limit_default [of "get_request None (Some ''0'') None" sample_driver sample_env
                 "Some alice_session" sample_db]
    by (simp add: u z parseInt_absent)
  have 4: "handler sample_driver sample_env (Some alice_session)
        (get_request (Some ''1'') (Some ''0'') None) sample_db
     = handler sample_driver sample_env (Some alice_session)
        (get_request (Some ''1'') (Some ''10'') None) sample_db"
    using zero_page_and_limit_default [of "get_request (Some ''1'') (Some ''0'') None" sample_driver sample_env
                 "Some alice_session" sample_db]
    by (simp add: u z)
  have pl: "or_default (parseInt (q_page (get_request (Some ''1'') (Some ''10'') None))) 1 = Num 1"
           "or_default (parseInt (q_limit (get_request (Some ''1'') (Some ''10'') None))) 10 = Num 10"
    by (simp_all add: get_request_facts parseInt_10 parseInt_1)
  have w: "[incident_2, incident_1]
             = take (nat 10) (drop (nat ((1 - 1) * 10)) [incident_2, incident_1])"
    by simp
  have n2: "2 = int (length [incident_2, incident_1])"
    by simp
  have b: "(1::int) \<le> 1" "(1::int) \<le> 10" "((1::int) - 1) * 10 < 2 ^ 53" "(2::int) < 2 ^ 53"
    by simp_all
  have tp: "ceil_div 2 10 = 1"
    by (simp add: ceil_div_eq)
  have 5: "handler sample_driver sample_env (Some alice_session)
        (get_request (Some ''1'') (Some ''10'') None) sample_db
     = (IncidentList [normalise incident_2, normalise incident_1] 2 1 1, sample_db)"
    using handler_GET_window [OF get_request_facts(1,2) pl(1) pl(2) b(1) b(2) b(3)
                sample_matching w n2 b(4),
                where e = sample_env and sess = alice_session and drv = sample_driver]
    by (simp only: tp list.map)
  show ?thesis
    using 1 2 3 4 5 by (simp add: u z)
qed

text \<open>A no-break space before the digits is skipped like any other white space.\<close>

lemma parseInt_no_break_space: "parseInt (Some (CHR 0xA0 # ''2'')) = Num 2"
  by (simp add: parseInt_str_def mathInt_def to_number_def safe_def is_space_def digit_of_def
        digit_table_def)

section \<open>Searching\<close>

lemma plain_Cons:
  "plain (c # cs) \<longleftrightarrow> c \<notin> set metachars \<and> plain cs"
  by (simp add: plain_def)

lemma plain_not_meta:
  assumes "c \<notin> set metachars"
  shows "c \<noteq> backslash" "c \<noteq> CHR ''.''" "c \<noteq> CHR ''|''" "c \<noteq> CHR ''*''"
  using assms by (auto simp: metachars_def)

lemma parse_atom_plain:
  "c \<notin> set metachars \<Longrightarrow> parse_atom (c # cs) = Some (Lit c, cs)"
  by (simp add: plain_not_meta)

lemma parse_pattern_plain:
  "plain t \<Longrightarrow> parse_pattern t = Some [map (\<lambda>c. One (Lit c)) t]"
proof (induction t)
  case Nil
  then show ?case by simp
next
  case (Cons c cs)
  then have c: "c \<notin> set metachars" and cs: "plain cs"
    by (simp_all add: plain_Cons)
  note a = parse_atom_plain [OF c, of cs]
  show ?case
  proof (cases cs)
    case Nil
    then show ?thesis
      using a plain_not_meta(3) [OF c] by simp
  next
    case (Cons q rest)
    with cs have "q \<notin> set metachars"
      by (simp add: plain_Cons)
    then have q: "q \<noteq> CHR ''*''"
      by (rule plain_not_meta)
    from Cons.IH [OF cs] have "parse_pattern cs = Some [map (\<lambda>c. One (Lit c)) cs]" .
    then show ?thesis
      using a q plain_not_meta(3) [OF c] Cons by simp
  qed
qed

lemma match_here_literal:
  "match_here (map (\<lambda>c. One (Lit c)) t) s \<longleftrightarrow> prefix (map to_lower t) (map to_lower s)"
proof (induction t arbitrary: s)
  case Nil
  then show ?case by simp
next
  case (Cons c cs)
  then show ?case by (cases s) auto
qed

lemma sublist_map_iff:
  "sublist xs (map f s) \<longleftrightarrow> (\<exists>suf. suffix suf s \<and> prefix xs (map f suf))"
proof
  assume "sublist xs (map f s)"
  then obtain ys where ys: "suffix ys (map f s)" "prefix xs ys"
    by (auto simp: sublist_altdef')
  from ys(1) obtain zs where "map f s = zs @ ys"
    by (auto simp: suffix_def)
  then obtain us vs where "s = us @ vs" "map f vs = ys"
    by (auto simp: map_eq_append_conv)
  with ys(2) have "suffix vs s \<and> prefix xs (map f vs)"
    by (simp add: suffix_def)
  then show "\<exists>suf. suffix suf s \<and> prefix xs (map f suf)" ..
next
  assume "\<exists>suf. suffix suf s \<and> prefix xs (map f suf)"
  then obtain suf where s: "suffix suf s" "prefix xs (map f suf)"
    by blast
  from s(1) have "suffix (map f suf) (map f s)"
    by (rule map_mono_suffix)
  with s(2) show "sublist xs (map f s)"
    by (auto simp: sublist_altdef')
qed

lemma match_anywhere_literal:
  "match_anywhere [map (\<lambda>c. One (Lit c)) t] s \<longleftrightarrow> ci_substring t s"
  by (auto simp: match_anywhere_def ci_substring_def list_ex_iff match_here_literal
        sublist_map_iff in_set_suffixes)

lemma pcre_subset_plain:
  "plain t \<Longrightarrow> \<exists>m. pcre_subset t = Some m \<and> (\<forall>s. m s \<longleftrightarrow> ci_substring t s)"
  by (simp add: pcre_subset_def parse_pattern_plain match_anywhere_literal)

lemma compile_query_no_term:
  "\<not> truthy_str search \<Longrightarrow> compile_query drv (build_query search) = Some (\<lambda>i. True)"
  by (cases search) (simp_all add: build_query_def)

lemma compile_query_plain:
  assumes "regex_i drv = pcre_subset" and "t \<noteq> []" and "plain t"
  shows "\<exists>p. compile_query drv (build_query (Some t)) = Some p
             \<and> (\<forall>i. p i \<longleftrightarrow> matches_literally t i)"
proof -
  from pcre_subset_plain [OF assms(3)] obtain m where
    m: "pcre_subset t = Some m" "\<forall>s. m s \<longleftrightarrow> ci_substring t s"
    by blast
  then show ?thesis
    using assms(1,2) by (auto simp: build_query_def matches_literally_def)
qed

lemma list_total:
  assumes "handler drv e sn req d = (IncidentList ws n pg tp, d')"
      and "compile_query drv (build_query (q_search req)) = Some p"
  shows "n = int (length (filter p (incidents d)))"
proof -
  from assms(1) have "handle_GET drv req d = (IncidentList ws n pg tp, d')"
    by (rule list_response)
  with assms(2) show ?thesis
    by (auto simp: handle_GET_def Let_def countDocuments_def
             split: option.splits jsnum.splits if_splits)
qed

text \<open>
  With the pattern engine of this theory, the filter is the one the specification
  describes as long as the term has no pattern metacharacter: without a term (absent or
  empty) it matches every record; with such a term a record matches if and only if the
  term occurs, without regard to case, as a substring of its title, description, address
  or type; and the total of a list answer counts exactly these records.
\<close>

lemma search_plain_terms:
  assumes "regex_i drv = pcre_subset"
  shows "(\<not> truthy_str (q_search req) \<longrightarrow>
            compile_query drv (build_query (q_search req)) = Some (\<lambda>i. True)
            \<and> (\<forall>ws n pg tp d'. handler drv e sn req d = (IncidentList ws n pg tp, d')
                 \<longrightarrow> n = int (length (incidents d))))
       \<and> (\<forall>t. q_search req = Some t \<and> t \<noteq> [] \<and> plain t \<longrightarrow>
            (\<exists>p. compile_query drv (build_query (q_search req)) = Some p
                 \<and> (\<forall>i. p i \<longleftrightarrow>
                        ci_substring t (title i) \<or> ci_substring t (description i)
                        \<or> ci_substring t (address (location i)) \<or> ci_substring t (type i)))
            \<and> (\<forall>ws n pg tp d'. handler drv e sn req d = (IncidentList ws n pg tp, d')
                 \<longrightarrow> n = int (length (filter (matches_literally t) (incidents d)))))"
proof (intro conjI impI allI)
  assume a: "\<not> truthy_str (q_search req)"
  then show c: "compile_query drv (build_query (q_search req)) = Some (\<lambda>i. True)"
    by (rule compile_query_no_term)
  fix ws n pg tp d'
  assume "handler drv e sn req d = (IncidentList ws n pg tp, d')"
  from list_total [OF this c] show "n = int (length (incidents d))"
    by simp
next
  fix t
  assume a: "q_search req = Some t \<and> t \<noteq> [] \<and> plain t"
  with compile_query_plain [OF assms, of t] obtain p where
    p: "compile_query drv (build_query (q_search req)) = Some p"
       "\<forall>i. p i \<longleftrightarrow> matches_literally t i"
    by auto
  then show "\<exists>p. compile_query drv (build_query (q_search req)) = Some p
                 \<and> (\<forall>i. p i \<longleftrightarrow>
                        ci_substring t (title i) \<or> ci_substring t (description i)
                        \<or> ci_substring t (address (location i)) \<or> ci_substring t (type i))"
    by (auto simp: matches_literally_def)
  fix ws n pg tp d'
  assume "handler drv e sn req d = (IncidentList ws n pg tp, d')"
  from list_total [OF this p(1)] p(2) have "n = int (length (filter p (incidents d)))"
    by simp
  moreover have "p = matches_literally t"
    using p(2) by auto
  ultimately show "n = int (length (filter (matches_literally t) (incidents d)))"
    by simp
qed

lemma search_examples:
  "handler sample_driver sample_env (Some alice_session)
     (get_request None None (Some ''COLL'')) sample_db
   = (IncidentList [normalise incident_1] 1 1 1, sample_db)"
  "handler sample_driver sample_env (Some alice_session)
     (get_request None None (Some ''unrelated'')) sample_db
   = (IncidentList [] 0 1 0, sample_db)"
  "handler sample_driver sample_env (Some alice_session)
     (get_request None None None) sample_db
   = (IncidentList [normalise incident_2, normalise incident_1] 2 1 1, sample_db)"
  by code_simp+

text \<open>
  The terms \<^verbatim>\<open>COLL\<close> (found in another case), \<^verbatim>\<open>unrelated\<close> (found nowhere) and no
  term at all, on the example store.
\<close>

lemma search_plain_terms_examples:
  "regex_i sample_driver = pcre_subset
   \<and> plain ''COLL'' \<and> plain ''unrelated''
   \<and> handler sample_driver sample_env (Some alice_session)
        (get_request None None (Some ''COLL'')) sample_db
       = (IncidentList [normalise incident_1] 1 1 1, sample_db)
   \<and> int (length (filter (matches_literally ''COLL'') (incidents sample_db))) = 1
   \<and> handler sample_driver sample_env (Some alice_session)
        (get_request None None (Some ''unrelated'')) sample_db
       = (IncidentList [] 0 1 0, sample_db)
   \<and> int (length (filter (matches_literally ''unrelated'') (incidents sample_db))) = 0
   \<and> handler sample_driver sample_env (Some alice_session)
        (get_request None None None) sample_db
       = (IncidentList [normalise incident_2, normalise incident_1] 2 1 1, sample_db)
   \<and> int (length (incidents sample_db)) = 2"
proof -
  have r: "regex_i sample_driver = pcre_subset"
    by (simp add: sample_driver_def)
  have pl: "plain ''COLL''" "plain ''unrelated''"
    by (simp_all add: plain_def metachars_def backslash_def)
  have q: "\<And>s. q_search (get_request None None s) = s"
    by (simp add: get_request_def)
  from search_plain_terms [OF r, of "get_request None None (Some ''COLL'')" sample_env
             "Some alice_session" sample_db] pl(1) search_examples(1)
  have 1: "int (length (filter (matches_literally ''COLL'') (incidents sample_db))) = 1"
    by (simp add: q)
  from search_plain_terms [OF r, of "get_request None None (Some ''unrelated'')" sample_env
             "Some alice_session" sample_db] pl(2) search_examples(2)
  have 2: "int (length (filter (matches_literally ''unrelated'') (incidents sample_db))) = 0"
    by (simp add: q)
  from search_plain_terms [OF r, of "get_request None None None" sample_env
             "Some alice_session" sample_db] search_examples(3)
  have 3: "int (length (incidents sample_db)) = 2"
    by (simp add: q)
  show ?thesis
    using r pl search_examples 1 2 3 by simp
qed

text \<open>
  C4. The claim gives, for every term, the records in which the term occurs as a
  substring. The handler passes the term to \<^verbatim>\<open>$regex\<close> as it is, so this fails for a
  term with a metacharacter: \<^verbatim>\<open>5th.Ave\<close> occurs in no field of the first example
  incident, yet the list operation returns that incident, the dot matching the space of
  \<^verbatim>\<open>5th Ave\<close>.
\<close>

theorem search_dot_read_as_wildcard:
  "handler sample_driver sample_env (Some alice_session)
     (get_request None None (Some ''5th.Ave'')) sample_db
   = (IncidentList [normalise incident_1] 1 1 1, sample_db)
   \<and> \<not> ci_substring ''5th.Ave'' (title incident_1)
   \<and> \<not> ci_substring ''5th.Ave'' (description incident_1)
   \<and> \<not> ci_substring ''5th.Ave'' (address (location incident_1))
   \<and> \<not> ci_substring ''5th.Ave'' (type incident_1)"
  by code_simp

text \<open>
  C5. The claim requires a term with metacharacters to match only where it occurs
  literally. The handler passes the term to \<^verbatim>\<open>$regex\<close> as it is: the term \<^verbatim>\<open>.*\<close>
  occurs in no field of any example incident, and the dashboard's own filter keeps none
  of them for it, yet the list operation returns both; and the term \<^verbatim>\<open>(\<close>, which is no
  valid pattern, is answered 500.
\<close>

theorem search_term_not_literal:
  "handler sample_driver sample_env (Some alice_session)
     (get_request None None (Some ''.*'')) sample_db
   = (IncidentList [normalise incident_2, normalise incident_1] 2 1 1, sample_db)
   \<and> filter (matches_literally ''.*'') (incidents sample_db) = []
   \<and> filteredIncidents ''.*'' [normalise incident_2, normalise incident_1] = []
   \<and> handler sample_driver sample_env (Some alice_session)
        (get_request None None (Some ''('')) sample_db
      = (Message 500 ''Error fetching incidents'', sample_db)"
  by code_simp

end
